theory Spec2Isabelle
  imports Main
begin

section \<open>Secure Transport channel adapter (network-macosx.c)\<close>

text \<open>
  A shallow embedding of the encrypted-channel adapter. The adapter is glue code around
  three libraries (the socket layer, GLib and the Secure Transport / Security
  frameworks). Every call into one of them is an \<^emph>\<open>event\<close> appended to a trace, and what
  the library answers is given by a \<^emph>\<open>platform\<close>: a record of functions from the history
  (the trace so far) and the call's arguments to the answer. A platform is therefore any
  deterministic environment; a descriptor that answers differently on each call is a
  platform whose answer depends on the history.
\<close>

subsection \<open>Values of the libraries\<close>

text \<open>Pointers and CoreFoundation references are addresses; \<open>NULL\<close> (\<open>nil\<close>) is 0.\<close>

type_synonym ref = nat

definition NULL :: ref where
  "NULL = 0"

text \<open>
  \<open>OSStatus\<close>: the code compares it with four named constants only, so the type has these
  four and one constructor for every other code.
\<close>

datatype OSStatus = noErr | errSSLWouldBlock | errSSLClosedGraceful | errSSLInternal
  | errOther nat

text \<open>\<open>errno\<close>: the code compares it with \<open>EAGAIN\<close> only.\<close>

datatype errno = EAGAIN | Eother nat

datatype SecTrustResultType =
    kSecTrustResultInvalid
  | kSecTrustResultProceed
  | kSecTrustResultConfirm
  | kSecTrustResultDeny
  | kSecTrustResultUnspecified
  | kSecTrustResultRecoverableTrustFailure
  | kSecTrustResultFatalTrustFailure
  | kSecTrustResultOtherError

datatype GIOStatus = G_IO_STATUS_ERROR | G_IO_STATUS_NORMAL | G_IO_STATUS_EOF
  | G_IO_STATUS_AGAIN

datatype GSeekType = G_SEEK_CUR | G_SEEK_SET | G_SEEK_END

datatype SSLProtocol = kSSLProtocol2 | kSSLProtocol3 | kTLSProtocol1

text \<open>
  What \<open>read(2)\<close> and \<open>write(2)\<close> return: \<open>-1\<close> with \<open>errno\<close> set, or a byte count.
  A successful read is given with the bytes it stored; its count is their number.
\<close>

datatype read_ret = Read_fail errno | Read_ok "char list"

datatype write_ret = Write_fail errno | Write_ok nat

text \<open>
  The readiness watch that \<open>io_create_watch\<close> returns: the channel it was created on, the
  descriptor it polls and the condition it waits for.
\<close>

record GSource =
  watch_channel :: ref
  watch_fd :: int
  watch_condition :: nat

subsection \<open>Events\<close>

datatype sock_event =
    E_read int nat read_ret
  | E_write int "char list" write_ret
  | E_select int "int list option" "int list option" "int list option" "int \<times> int" int errno

datatype glib_event =
    E_g_warning string
  | E_g_error string
  | E_g_io_channel_unix_get_fd ref int
  | E_g_new0 ref
  | E_g_io_channel_init ref
  | E_g_io_channel_unref ref
  | E_g_free ref
  | E_net_connect_ip nat nat nat ref
  | E_io_seek ref int GSeekType GIOStatus
  | E_io_close ref GIOStatus
  | E_io_create_watch ref nat GSource
  | E_io_set_flags ref nat GIOStatus
  | E_io_get_flags ref nat

datatype ssl_event =
    E_SSLNewContext bool OSStatus ref
  | E_SSLSetIOFuncs ref OSStatus
  | E_SSLSetProtocolVersionEnabled ref SSLProtocol bool
  | E_SSLSetEnableCertVerify ref bool
  | E_SSLSetAllowsAnyRoot ref bool
  | E_SSLSetCertificate ref ref OSStatus
  | E_SSLSetEncryptionCertificate ref ref OSStatus
  | E_SSLSetConnection ref ref OSStatus
  | E_SSLDisposeContext ref
  | E_SSLHandshake ref OSStatus
  | E_SSLCopyPeerTrust ref OSStatus ref
  | E_SSLRead ref nat OSStatus nat
  | E_SSLWrite ref "char list" OSStatus nat

datatype sec_event =
    E_SecTrustEvaluate ref OSStatus SecTrustResultType
  | E_present_trust_panel ref int
  | E_SecIdentitySearchCreate OSStatus ref
  | E_SecIdentitySearchCopyNext ref OSStatus ref
  | E_SecIdentityCopyCertificate ref OSStatus ref
  | E_SecCertificateCopyCommonName ref OSStatus ref
  | E_CFStringCreateWithCString string ref
  | E_CFStringCompare ref ref bool
  | E_CFArrayCreate "ref list" ref
  | E_CFRelease ref

datatype event = Sock sock_event | Glib glib_event | Ssl ssl_event | Sec sec_event

type_synonym trace = "event list"

subsection \<open>The platform\<close>

text \<open>
  The function table of a raw channel (\<open>GIOFuncs\<close>); each entry takes the channel it is
  invoked on as its first argument.
\<close>

record GIOFuncs =
  io_seek :: "trace \<Rightarrow> ref \<Rightarrow> int \<Rightarrow> GSeekType \<Rightarrow> GIOStatus"
  io_close :: "trace \<Rightarrow> ref \<Rightarrow> GIOStatus"
  io_create_watch :: "trace \<Rightarrow> ref \<Rightarrow> nat \<Rightarrow> GSource"
  io_set_flags :: "trace \<Rightarrow> ref \<Rightarrow> nat \<Rightarrow> GIOStatus"
  io_get_flags :: "trace \<Rightarrow> ref \<Rightarrow> nat"

record platform =
  p_read :: "trace \<Rightarrow> int \<Rightarrow> nat \<Rightarrow> read_ret"
  p_write :: "trace \<Rightarrow> int \<Rightarrow> char list \<Rightarrow> write_ret"
  p_select :: "trace \<Rightarrow> int \<Rightarrow> int list option \<Rightarrow> int list option \<Rightarrow> int list option
    \<Rightarrow> int \<times> int \<Rightarrow> int \<times> errno"
  p_g_io_channel_unix_get_fd :: "trace \<Rightarrow> ref \<Rightarrow> int"
  p_g_new0 :: "trace \<Rightarrow> ref"
  p_net_connect_ip :: "trace \<Rightarrow> nat \<Rightarrow> nat \<Rightarrow> nat \<Rightarrow> ref"
  p_funcs :: "ref \<Rightarrow> GIOFuncs"
  p_SSLNewContext :: "trace \<Rightarrow> bool \<Rightarrow> OSStatus \<times> ref"
  p_SSLSetIOFuncs :: "trace \<Rightarrow> ref \<Rightarrow> OSStatus"
  p_SSLSetCertificate :: "trace \<Rightarrow> ref \<Rightarrow> ref \<Rightarrow> OSStatus"
  p_SSLSetEncryptionCertificate :: "trace \<Rightarrow> ref \<Rightarrow> ref \<Rightarrow> OSStatus"
  p_SSLSetConnection :: "trace \<Rightarrow> ref \<Rightarrow> ref \<Rightarrow> OSStatus"
  p_SSLHandshake :: "trace \<Rightarrow> ref \<Rightarrow> OSStatus"
  p_SSLCopyPeerTrust :: "trace \<Rightarrow> ref \<Rightarrow> OSStatus \<times> ref"
  p_SSLRead :: "trace \<Rightarrow> ref \<Rightarrow> nat \<Rightarrow> OSStatus \<times> nat"
  p_SSLWrite :: "trace \<Rightarrow> ref \<Rightarrow> char list \<Rightarrow> OSStatus \<times> nat"
  p_SecTrustEvaluate :: "trace \<Rightarrow> ref \<Rightarrow> OSStatus \<times> SecTrustResultType"
  p_present_trust_panel :: "trace \<Rightarrow> ref \<Rightarrow> int"
  p_SecIdentitySearchCreate :: "trace \<Rightarrow> OSStatus \<times> ref"
  p_SecIdentitySearchCopyNext :: "trace \<Rightarrow> ref \<Rightarrow> OSStatus \<times> ref"
  p_SecIdentityCopyCertificate :: "trace \<Rightarrow> ref \<Rightarrow> OSStatus \<times> ref"
  p_SecCertificateCopyCommonName :: "trace \<Rightarrow> ref \<Rightarrow> OSStatus \<times> ref"
  p_CFStringCreateWithCString :: "trace \<Rightarrow> string \<Rightarrow> ref"
  p_CFStringCompare :: "trace \<Rightarrow> ref \<Rightarrow> ref \<Rightarrow> bool"
  p_CFArrayCreate :: "trace \<Rightarrow> ref list \<Rightarrow> ref"

subsection \<open>The channel object and the world\<close>

text \<open>
  \<open>GIOSSLChannel\<close>. Its first member \<open>pad\<close> is a \<open>GIOChannel\<close>; of that the code sets the
  function table and three flags. The member \<open>context\<close> is written \<open>context'\<close> here.
\<close>

datatype funcs_ptr = no_funcs | irssi_ssl_channel_funcs

record GIOSSLChannel =
  pad_funcs :: funcs_ptr
  pad_is_readable :: bool
  pad_is_writeable :: bool
  pad_use_buffer :: bool
  fd :: int
  giochan :: ref
  context' :: ref
  verify :: bool
  hostname :: "string option"

text \<open>
  The world: the trace of library calls so far, and the memory holding the channel
  objects (\<open>heap w p\<close> is the \<open>GIOSSLChannel\<close> that the pointer \<open>p\<close> points to).
\<close>

record world =
  trace :: trace
  heap :: "ref \<Rightarrow> GIOSSLChannel"

subsection \<open>The byte relay: \<open>_SSLReadFunction\<close> and \<open>_SSLWriteFunction\<close>\<close>

text \<open>
  The two functions are named without the underscore that starts their names in the
  source. The buffer \<open>data\<close> is a list of bytes. \<open>read(fd, data + len, count)\<close> stores the
  bytes it delivers at offset \<open>len\<close>. The counts (\<open>size_t\<close>) are natural numbers: as long
  as a call transfers at most the count it was asked for, \<open>len\<close> never exceeds
  \<open>*dataLength\<close> and no sum or difference in the loops wraps around.
\<close>

definition store_bytes :: "char list \<Rightarrow> nat \<Rightarrow> char list \<Rightarrow> char list" where
  "store_bytes data off bs = take off data @ bs @ drop (off + length bs) data"

text \<open>
  The \<open>while (len < *dataLength)\<close> loop of \<open>_SSLReadFunction\<close>. It need not terminate, so
  the result is an option and \<open>None\<close> means that the loop runs forever. The result is the
  status, the buffer, the value left in \<open>*dataLength\<close> and the trace. The comparison
  \<open>res == -1\<close> is the case \<open>Read_fail\<close>. On an error other than \<open>EAGAIN\<close> the code returns
  without writing \<open>*dataLength\<close>, which keeps the requested length.
\<close>

partial_function (option) SSLReadFunction_loop ::
  "platform \<Rightarrow> int \<Rightarrow> nat \<Rightarrow> nat \<Rightarrow> char list \<Rightarrow> trace
    \<Rightarrow> (OSStatus \<times> char list \<times> nat \<times> trace) option" where
  "SSLReadFunction_loop P fd' dataLength len data tr =
     (if len < dataLength then
        (let res = p_read P tr fd' (dataLength - len);
             tr1 = tr @ [Sock (E_read fd' (dataLength - len) res)]
         in case res of
              Read_fail e \<Rightarrow>
                if e = EAGAIN then Some (errSSLWouldBlock, data, len, tr1)
                else Some (errSSLInternal, data, dataLength,
                           tr1 @ [Glib (E_g_warning ''read returned %d'')])
            | Read_ok bs \<Rightarrow>
                SSLReadFunction_loop P fd' dataLength (len + length bs)
                  (store_bytes data len bs) tr1)
      else Some (noErr, data, len, tr))"

definition SSLReadFunction ::
  "platform \<Rightarrow> ref \<Rightarrow> char list \<Rightarrow> nat \<Rightarrow> world
    \<Rightarrow> (OSStatus \<times> char list \<times> nat \<times> world) option" where
  "SSLReadFunction P connection data dataLength w =
     (let channel = heap w connection
      in case SSLReadFunction_loop P (fd channel) dataLength 0 data (trace w) of
           None \<Rightarrow> None
         | Some (status, data', n, tr') \<Rightarrow> Some (status, data', n, w\<lparr>trace := tr'\<rparr>))"

text \<open>
  The loop of \<open>_SSLWriteFunction\<close>: each \<open>write\<close> is offered
  \<open>chunk = min (*dataLength - len) 4096\<close> bytes starting at \<open>data + len\<close>. The result is the
  status, the value left in \<open>*dataLength\<close> and the trace.
\<close>

partial_function (option) SSLWriteFunction_loop ::
  "platform \<Rightarrow> int \<Rightarrow> char list \<Rightarrow> nat \<Rightarrow> nat \<Rightarrow> trace
    \<Rightarrow> (OSStatus \<times> nat \<times> trace) option" where
  "SSLWriteFunction_loop P fd' data dataLength len tr =
     (if len < dataLength then
        (let chunk = (if dataLength - len < 4096 then dataLength - len else 4096);
             bytes = take chunk (drop len data);
             res = p_write P tr fd' bytes;
             tr1 = tr @ [Sock (E_write fd' bytes res)]
         in case res of
              Write_fail e \<Rightarrow>
                if e = EAGAIN then Some (errSSLWouldBlock, len, tr1)
                else Some (errSSLInternal, dataLength,
                           tr1 @ [Glib (E_g_warning ''write returned %d'')])
            | Write_ok k \<Rightarrow> SSLWriteFunction_loop P fd' data dataLength (len + k) tr1)
      else Some (noErr, len, tr))"

definition SSLWriteFunction ::
  "platform \<Rightarrow> ref \<Rightarrow> char list \<Rightarrow> nat \<Rightarrow> world \<Rightarrow> (OSStatus \<times> nat \<times> world) option" where
  "SSLWriteFunction P connection data dataLength w =
     (let channel = heap w connection
      in case SSLWriteFunction_loop P (fd channel) data dataLength 0 (trace w) of
           None \<Rightarrow> None
         | Some (status, n, tr') \<Rightarrow> Some (status, n, w\<lparr>trace := tr'\<rparr>))"

text \<open>
  What a trace shows of the raw descriptor: the bytes that successful reads delivered, the
  bytes that successful writes accepted (the first \<open>k\<close> of those offered), the \<open>errno\<close> of
  each failed call, and the sizes of the chunks offered to \<open>write\<close>.
\<close>

fun bytes_read :: "int \<Rightarrow> trace \<Rightarrow> char list" where
  "bytes_read d [] = []"
| "bytes_read d (Sock (E_read d' n (Read_ok bs)) # es) =
     (if d' = d then bs @ bytes_read d es else bytes_read d es)"
| "bytes_read d (e # es) = bytes_read d es"

fun bytes_written :: "int \<Rightarrow> trace \<Rightarrow> char list" where
  "bytes_written d [] = []"
| "bytes_written d (Sock (E_write d' bs (Write_ok k)) # es) =
     (if d' = d then take k bs @ bytes_written d es else bytes_written d es)"
| "bytes_written d (e # es) = bytes_written d es"

fun io_failures :: "trace \<Rightarrow> errno list" where
  "io_failures [] = []"
| "io_failures (Sock (E_read d n (Read_fail e)) # es) = e # io_failures es"
| "io_failures (Sock (E_write d bs (Write_fail e)) # es) = e # io_failures es"
| "io_failures (e # es) = io_failures es"

fun write_chunks :: "trace \<Rightarrow> nat list" where
  "write_chunks [] = []"
| "write_chunks (Sock (E_write d bs r) # es) = length bs # write_chunks es"
| "write_chunks (e # es) = write_chunks es"

text \<open>
  The contract of \<open>read(2)\<close> and \<open>write(2)\<close>: a call transfers at most the count asked for.
  A descriptor \<^emph>\<open>makes progress\<close> when a successful call for a positive count transfers
  at least one byte.
\<close>

definition posix_read :: "platform \<Rightarrow> bool" where
  "posix_read P = (\<forall>tr d n bs. p_read P tr d n = Read_ok bs \<longrightarrow> length bs \<le> n)"

definition posix_write :: "platform \<Rightarrow> bool" where
  "posix_write P = (\<forall>tr d bs k. p_write P tr d bs = Write_ok k \<longrightarrow> k \<le> length bs)"

definition read_progress :: "platform \<Rightarrow> bool" where
  "read_progress P = (\<forall>tr d n. 0 < n \<longrightarrow> p_read P tr d n \<noteq> Read_ok [])"

definition write_progress :: "platform \<Rightarrow> bool" where
  "write_progress P = (\<forall>tr d bs. bs \<noteq> [] \<longrightarrow> p_write P tr d bs \<noteq> Write_ok 0)"

subsection \<open>The handshake driver: \<open>irssi_ssl_handshake\<close>\<close>

text \<open>
  Trust evaluation, the part of \<open>irssi_ssl_handshake\<close> after \<open>SSLHandshake\<close> has returned
  \<open>noErr\<close>. The \<open>switch\<close> accepts \<open>kSecTrustResultProceed\<close> and
  \<open>kSecTrustResultUnspecified\<close>; its \<open>default\<close> branch calls
  \<open>irssibridge_present_trust_panel\<close> and accepts the answer 1 (\<open>NSOKButton\<close>) only.
\<close>

definition handshake_trust :: "platform \<Rightarrow> GIOSSLChannel \<Rightarrow> trace \<Rightarrow> int \<times> trace" where
  "handshake_trust P channel tr =
     (let (status, secTrustRef) = p_SSLCopyPeerTrust P tr (context' channel);
          tr1 = tr @ [Ssl (E_SSLCopyPeerTrust (context' channel) status secTrustRef)]
      in if status \<noteq> noErr then
           (- 1, tr1 @ [Glib (E_g_warning
              ''SSLCopyPeerTrust failed, unable to verify client cerfiticates. %d'')])
         else
           (let (status, trustResult) = p_SecTrustEvaluate P tr1 secTrustRef;
                tr2 = tr1 @ [Sec (E_SecTrustEvaluate secTrustRef status trustResult)]
            in if status \<noteq> noErr then
                 (- 1, tr2 @ [Glib (E_g_warning
                    ''SecTrustEvaluate failed, unable to verify client certificates. %d''),
                    Sec (E_CFRelease secTrustRef)])
               else if trustResult = kSecTrustResultProceed
                       \<or> trustResult = kSecTrustResultUnspecified then
                 (0, tr2 @ [Sec (E_CFRelease secTrustRef)])
               else
                 (let code = p_present_trust_panel P tr2 secTrustRef;
                      tr3 = tr2 @ [Sec (E_present_trust_panel secTrustRef code)]
                  in if code \<noteq> 1 then (- 1, tr3 @ [Sec (E_CFRelease secTrustRef)])
                     else (0, tr3 @ [Sec (E_CFRelease secTrustRef)]))))"

text \<open>
  \<open>irssi_ssl_handshake\<close>. The write set holds the channel's descriptor alone, the read
  and exception sets are \<open>NULL\<close> and the timeout is \<open>{0, 0}\<close>. The body of the \<open>while\<close>
  around \<open>select\<close> returns on every path, so \<open>select\<close> is called once.
\<close>

definition irssi_ssl_handshake :: "platform \<Rightarrow> ref \<Rightarrow> world \<Rightarrow> int \<times> world" where
  "irssi_ssl_handshake P handle w =
     (let channel = heap w handle;
          (ret, err) = p_select P (trace w) (fd channel + 1) None (Some [fd channel]) None (0, 0);
          tr1 = trace w @ [Sock (E_select (fd channel + 1) None (Some [fd channel]) None (0, 0)
                                  ret err)]
      in if ret < 1 then
           (if ret = 0 \<or> err = EAGAIN then
              (3, w\<lparr>trace := tr1 @ [Glib (E_g_warning ''select() returned EAGAIN'')]\<rparr>)
            else
              (- 1, w\<lparr>trace := tr1 @ [Glib (E_g_warning
                 ''select() waiting for socket connect returned %d.'')]\<rparr>))
         else
           (let status = p_SSLHandshake P tr1 (context' channel);
                tr2 = tr1 @ [Ssl (E_SSLHandshake (context' channel) status)]
            in if status \<noteq> noErr then
                 (if status = errSSLWouldBlock then (1, w\<lparr>trace := tr2\<rparr>)
                  else (- 1, w\<lparr>trace := tr2 @ [Glib (E_g_warning
                          ''SSLHandshake failed with error %d.'')]\<rparr>))
               else
                 (let (r, tr3) = handshake_trust P channel tr2 in (r, w\<lparr>trace := tr3\<rparr>))))"

text \<open>
  How the caller reads the return code: 0 is Established, \<open>-1\<close> is Failed, and 1 and 3
  both ask the caller to call again once the descriptor is ready (InProgress).
\<close>

datatype HandshakeResult = InProgress | Established | Failed

definition handshake_result :: "int \<Rightarrow> HandshakeResult" where
  "handshake_result r = (if r = 0 then Established else if r = 1 \<or> r = 3 then InProgress
                         else Failed)"

subsection \<open>The channel operations\<close>

definition irssi_ssl_read ::
  "platform \<Rightarrow> ref \<Rightarrow> nat \<Rightarrow> world \<Rightarrow> (GIOStatus \<times> nat) \<times> world" where
  "irssi_ssl_read P handle len w =
     (let channel = heap w handle;
          (status, processed) = p_SSLRead P (trace w) (context' channel) len;
          w1 = w\<lparr>trace := trace w @ [Ssl (E_SSLRead (context' channel) len status processed)]\<rparr>
      in if status = noErr then ((G_IO_STATUS_NORMAL, processed), w1)
         else if status = errSSLWouldBlock then ((G_IO_STATUS_AGAIN, 0), w1)
         else if status = errSSLClosedGraceful then ((G_IO_STATUS_EOF, 0), w1)
         else ((G_IO_STATUS_ERROR, 0), w1))"

definition irssi_ssl_write ::
  "platform \<Rightarrow> ref \<Rightarrow> char list \<Rightarrow> nat \<Rightarrow> world \<Rightarrow> (GIOStatus \<times> nat) \<times> world" where
  "irssi_ssl_write P handle buf len w =
     (let channel = heap w handle;
          (status, processed) = p_SSLWrite P (trace w) (context' channel) (take len buf);
          w1 = w\<lparr>trace := trace w @
                 [Ssl (E_SSLWrite (context' channel) (take len buf) status processed)]\<rparr>
      in if status = noErr then ((G_IO_STATUS_NORMAL, processed), w1)
         else if status = errSSLWouldBlock then ((G_IO_STATUS_AGAIN, 0), w1)
         else ((G_IO_STATUS_ERROR, 0), w1))"

text \<open>
  The pass-through operations call the entry of the raw channel's function table
  (\<open>chan->giochan->funcs\<close>) with \<open>handle\<close>, the pointer they were given, as the channel.
\<close>

definition irssi_ssl_seek ::
  "platform \<Rightarrow> ref \<Rightarrow> int \<Rightarrow> GSeekType \<Rightarrow> world \<Rightarrow> GIOStatus \<times> world" where
  "irssi_ssl_seek P handle offset type w =
     (let chan = heap w handle;
          r = io_seek (p_funcs P (giochan chan)) (trace w) handle offset type
      in (r, w\<lparr>trace := trace w @ [Glib (E_io_seek handle offset type r)]\<rparr>))"

definition irssi_ssl_close :: "platform \<Rightarrow> ref \<Rightarrow> world \<Rightarrow> GIOStatus \<times> world" where
  "irssi_ssl_close P handle w =
     (let chan = heap w handle;
          r = io_close (p_funcs P (giochan chan)) (trace w) handle
      in (r, w\<lparr>trace := trace w @ [Glib (E_io_close handle r)]\<rparr>))"

definition irssi_ssl_create_watch :: "platform \<Rightarrow> ref \<Rightarrow> nat \<Rightarrow> world \<Rightarrow> GSource \<times> world" where
  "irssi_ssl_create_watch P handle cond w =
     (let chan = heap w handle;
          r = io_create_watch (p_funcs P (giochan chan)) (trace w) handle cond
      in (r, w\<lparr>trace := trace w @ [Glib (E_io_create_watch handle cond r)]\<rparr>))"

definition irssi_ssl_set_flags :: "platform \<Rightarrow> ref \<Rightarrow> nat \<Rightarrow> world \<Rightarrow> GIOStatus \<times> world" where
  "irssi_ssl_set_flags P handle flags w =
     (let chan = heap w handle;
          r = io_set_flags (p_funcs P (giochan chan)) (trace w) handle flags
      in (r, w\<lparr>trace := trace w @ [Glib (E_io_set_flags handle flags r)]\<rparr>))"

definition irssi_ssl_get_flags :: "platform \<Rightarrow> ref \<Rightarrow> world \<Rightarrow> nat \<times> world" where
  "irssi_ssl_get_flags P handle w =
     (let chan = heap w handle;
          r = io_get_flags (p_funcs P (giochan chan)) (trace w) handle
      in (r, w\<lparr>trace := trace w @ [Glib (E_io_get_flags handle r)]\<rparr>))"

text \<open>\<open>irssi_ssl_free\<close>, the \<open>io_free\<close> entry: what destroys the channel.\<close>

definition irssi_ssl_free :: "platform \<Rightarrow> ref \<Rightarrow> world \<Rightarrow> world" where
  "irssi_ssl_free P handle w =
     (let channel = heap w handle
      in w\<lparr>trace := trace w @ [Glib (E_g_io_channel_unref (giochan channel)),
                                Ssl (E_SSLDisposeContext (context' channel)),
                                Glib (E_g_free handle)]\<rparr>)"

subsection \<open>Construction: \<open>CreateIdentityFromCommonName\<close>, \<open>irssi_ssl_get_iochannel\<close>\<close>

text \<open>
  The \<open>while\<close> loop of \<open>CreateIdentityFromCommonName\<close> over the keychain identities. It
  ends when \<open>SecIdentitySearchCopyNext\<close> fails or a common name matches (\<open>break\<close>); the two
  \<open>continue\<close> statements and the end of the body are the recursive calls. The result is
  \<open>discoveredIdentityRef\<close>, \<open>identityRef\<close> and the trace; \<open>None\<close> is a search that never
  ends.
\<close>

partial_function (option) identity_search_loop ::
  "platform \<Rightarrow> ref \<Rightarrow> ref \<Rightarrow> trace \<Rightarrow> (ref \<times> ref \<times> trace) option" where
  "identity_search_loop P identitySearchRef certificateCommonNameRef tr =
     (case p_SecIdentitySearchCopyNext P tr identitySearchRef of (status, identityRef) \<Rightarrow>
      let tr1 = tr @ [Sec (E_SecIdentitySearchCopyNext identitySearchRef status identityRef)]
      in if status = noErr then
           (case p_SecIdentityCopyCertificate P tr1 identityRef of
              (substatus, certificateRef) \<Rightarrow>
            let tr2 = tr1 @ [Sec (E_SecIdentityCopyCertificate identityRef substatus
                                    certificateRef)]
            in if substatus \<noteq> noErr then
                 identity_search_loop P identitySearchRef certificateCommonNameRef tr2
               else
                 (case p_SecCertificateCopyCommonName P tr2 certificateRef of
                    (substatus, commonNameRef) \<Rightarrow>
                  let tr3 = tr2 @ [Sec (E_SecCertificateCopyCommonName certificateRef substatus
                                          commonNameRef)]
                  in if substatus \<noteq> noErr then
                       identity_search_loop P identitySearchRef certificateCommonNameRef
                         (tr3 @ [Sec (E_CFRelease certificateRef)])
                     else
                       (let eq = p_CFStringCompare P tr3 commonNameRef certificateCommonNameRef;
                            tr4 = tr3 @ [Sec (E_CFStringCompare commonNameRef
                                                certificateCommonNameRef eq)]
                        in if eq then
                             Some (identityRef, identityRef,
                                   tr4 @ [Sec (E_CFRelease commonNameRef),
                                          Sec (E_CFRelease certificateRef)])
                           else
                             identity_search_loop P identitySearchRef certificateCommonNameRef
                               (tr4 @ [Sec (E_CFRelease commonNameRef),
                                       Sec (E_CFRelease certificateRef),
                                       Sec (E_CFRelease identityRef)]))))
         else Some (NULL, identityRef, tr1))"

text \<open>
  The parameter \<open>privateKey\<close> is not used in the body. The two warnings are written
  without the quotation marks that the source puts around \<open>%s\<close>.
\<close>

definition CreateIdentityFromCommonName ::
  "platform \<Rightarrow> string \<Rightarrow> string option \<Rightarrow> trace \<Rightarrow> (ref \<times> trace) option" where
  "CreateIdentityFromCommonName P certificate privateKey tr =
     (let (status, identitySearchRef) = p_SecIdentitySearchCreate P tr;
          tr1 = tr @ [Sec (E_SecIdentitySearchCreate status identitySearchRef)]
      in if status \<noteq> noErr then
           Some (NULL, tr1 @ [Glib (E_g_warning
             ''Unable to create search for keychain identity matching %s'')])
         else
           (let certificateCommonNameRef = p_CFStringCreateWithCString P tr1 certificate;
                tr2 = tr1 @ [Sec (E_CFStringCreateWithCString certificate
                                    certificateCommonNameRef)]
            in case identity_search_loop P identitySearchRef certificateCommonNameRef tr2 of
                 None \<Rightarrow> None
               | Some (discoveredIdentityRef, identityRef, tr3) \<Rightarrow>
                   (let tr4 = tr3 @ [Sec (E_CFRelease certificateCommonNameRef),
                                     Sec (E_CFRelease identitySearchRef)]
                    in if discoveredIdentityRef = NULL then
                         Some (NULL, tr4 @ [Glib (E_g_warning
                           ''Unable to find keychain identity with common name %s.'')])
                       else Some (identityRef, tr4))))"

text \<open>
  \<open>g_error\<close> logs at the level that GLib always treats as fatal: it ends in \<open>abort()\<close>, and
  the statements that follow it in the source are never reached. A call therefore either
  returns a pointer (\<open>NULL\<close> for failure) or aborts the process.
\<close>

datatype 'a outcome = Aborted | Returned 'a

text \<open>
  The end of \<open>irssi_ssl_get_iochannel\<close>, from \<open>g_new0\<close> on: the channel object is
  allocated, filled in and bound to the context.
\<close>

definition get_iochannel_bind ::
  "platform \<Rightarrow> ref \<Rightarrow> string option \<Rightarrow> bool \<Rightarrow> int \<Rightarrow> ref \<Rightarrow> world \<Rightarrow> ref outcome \<times> world"
  where
  "get_iochannel_bind P handle hostname' verify' fd' contextRef w =
     (let channel = p_g_new0 P (trace w);
          tr1 = trace w @ [Glib (E_g_new0 channel)];
          obj = \<lparr>pad_funcs = irssi_ssl_channel_funcs, pad_is_readable = True,
                 pad_is_writeable = True, pad_use_buffer = False, fd = fd', giochan = handle,
                 context' = contextRef, verify = verify', hostname = hostname'\<rparr>;
          tr2 = tr1 @ [Glib (E_g_io_channel_init channel)];
          status = p_SSLSetConnection P tr2 contextRef channel;
          tr3 = tr2 @ [Ssl (E_SSLSetConnection contextRef channel status)];
          h = (heap w)(channel := obj)
      in if status \<noteq> noErr then
           (Aborted, \<lparr>trace = tr3 @ [Glib (E_g_error ''Failed to set SSLConnection, %d.'')],
                      heap = h\<rparr>)
         else (Returned channel, \<lparr>trace = tr3, heap = h\<rparr>))"

text \<open>
  The \<open>if (mycert)\<close> block: the identity is looked up and installed as the client
  certificate. The result is \<open>True\<close> when construction goes on and \<open>False\<close> when the
  function returns \<open>NULL\<close>. When the lookup fails the context is disposed; when
  \<open>SSLSetCertificate\<close> or \<open>SSLSetEncryptionCertificate\<close> fails it is not.
\<close>

definition get_iochannel_identity ::
  "platform \<Rightarrow> ref \<Rightarrow> string \<Rightarrow> string option \<Rightarrow> trace \<Rightarrow> (bool \<times> trace) option" where
  "get_iochannel_identity P contextRef mycert mypkey tr =
     (case CreateIdentityFromCommonName P mycert mypkey tr of
        None \<Rightarrow> None
      | Some (identity, tr1) \<Rightarrow>
          if identity = NULL then
            Some (False, tr1 @ [Glib (E_g_warning
                    ''Failed to create an identity out of supplied certificates.''),
                  Ssl (E_SSLDisposeContext contextRef)])
          else
            (let certificates = p_CFArrayCreate P tr1 [identity];
                 tr2 = tr1 @ [Sec (E_CFArrayCreate [identity] certificates)];
                 status = p_SSLSetCertificate P tr2 contextRef certificates;
                 tr3 = tr2 @ [Ssl (E_SSLSetCertificate contextRef certificates status)];
                 (status, tr4) =
                   (if status = noErr then
                      (let status' = p_SSLSetEncryptionCertificate P tr3 contextRef certificates
                       in (status', tr3 @ [Ssl (E_SSLSetEncryptionCertificate contextRef
                                                  certificates status')]))
                    else (status, tr3));
                 tr5 = tr4 @ [Sec (E_CFRelease certificates), Sec (E_CFRelease identity)]
             in if status \<noteq> noErr then
                  Some (False, tr5 @ [Glib (E_g_warning
                          ''Failed to set certificate for SSL connection. %d'')])
                else Some (True, tr5)))"

text \<open>
  \<open>irssi_ssl_get_iochannel\<close>. The parameters \<open>cafile\<close> and \<open>capath\<close> are not used in the
  body; \<open>mypkey\<close> is passed to \<open>CreateIdentityFromCommonName\<close> only.
\<close>

definition irssi_ssl_get_iochannel ::
  "platform \<Rightarrow> ref \<Rightarrow> string option \<Rightarrow> string option \<Rightarrow> string option \<Rightarrow> string option
    \<Rightarrow> string option \<Rightarrow> bool \<Rightarrow> world \<Rightarrow> (ref outcome \<times> world) option" where
  "irssi_ssl_get_iochannel P handle hostname' mycert mypkey cafile capath verify' w =
     (let fd' = p_g_io_channel_unix_get_fd P (trace w) handle;
          tr1 = trace w @ [Glib (E_g_io_channel_unix_get_fd handle fd')]
      in if fd' = 0 then Some (Returned NULL, w\<lparr>trace := tr1\<rparr>)
         else
           (let (status, contextRef) = p_SSLNewContext P tr1 False;
                tr2 = tr1 @ [Ssl (E_SSLNewContext False status contextRef)]
            in if status \<noteq> noErr then
                 Some (Aborted, w\<lparr>trace := tr2 @ [Glib (E_g_error
                         ''Failed to create new SSLContextRef, %d.'')]\<rparr>)
               else
                 (let status = p_SSLSetIOFuncs P tr2 contextRef;
                      tr3 = tr2 @ [Ssl (E_SSLSetIOFuncs contextRef status)]
                  in if status \<noteq> noErr then
                       Some (Aborted, w\<lparr>trace := tr3 @ [Glib (E_g_error
                               ''Failed to set IOFuncs, %d.'')]\<rparr>)
                     else
                       (let tr4 = tr3 @
                              [Ssl (E_SSLSetProtocolVersionEnabled contextRef kSSLProtocol2 False),
                               Ssl (E_SSLSetEnableCertVerify contextRef verify'),
                               Ssl (E_SSLSetAllowsAnyRoot contextRef True)]
                        in case mycert of
                             None \<Rightarrow>
                               Some (get_iochannel_bind P handle hostname' verify' fd' contextRef
                                       (w\<lparr>trace := tr4\<rparr>))
                           | Some cert \<Rightarrow>
                               (case get_iochannel_identity P contextRef cert mypkey tr4 of
                                  None \<Rightarrow> None
                                | Some (ok, tr5) \<Rightarrow>
                                    if ok then
                                      Some (get_iochannel_bind P handle hostname' verify' fd'
                                              contextRef (w\<lparr>trace := tr5\<rparr>))
                                    else Some (Returned NULL, w\<lparr>trace := tr5\<rparr>))))))"

definition net_connect_ip_ssl ::
  "platform \<Rightarrow> nat \<Rightarrow> nat \<Rightarrow> string option \<Rightarrow> nat \<Rightarrow> string option \<Rightarrow> string option
    \<Rightarrow> string option \<Rightarrow> string option \<Rightarrow> bool \<Rightarrow> world \<Rightarrow> (ref outcome \<times> world) option" where
  "net_connect_ip_ssl P ip port hostname' my_ip cert pkey cafile capath verify' w =
     (let handle = p_net_connect_ip P (trace w) ip port my_ip;
          w1 = w\<lparr>trace := trace w @ [Glib (E_net_connect_ip ip port my_ip handle)]\<rparr>
      in if handle = NULL then Some (Returned NULL, w1)
         else
           (case irssi_ssl_get_iochannel P handle hostname' cert pkey cafile capath verify' w1 of
              None \<Rightarrow> None
            | Some (Aborted, w2) \<Rightarrow> Some (Aborted, w2)
            | Some (Returned ssl_handle, w2) \<Rightarrow>
                if ssl_handle = NULL then
                  Some (Returned NULL,
                        w2\<lparr>trace := trace w2 @ [Glib (E_g_io_channel_unref handle)]\<rparr>)
                else Some (Returned ssl_handle, w2)))"

subsection \<open>What the specification compares the code with\<close>

text \<open>
  The specification's reading of a pass-through operation: the corresponding operation of
  the wrapped raw channel, invoked on the wrapped raw channel \<open>g\<close> itself.
\<close>

definition raw_channel_seek ::
  "platform \<Rightarrow> ref \<Rightarrow> int \<Rightarrow> GSeekType \<Rightarrow> world \<Rightarrow> GIOStatus \<times> world" where
  "raw_channel_seek P g offset type w =
     (let r = io_seek (p_funcs P g) (trace w) g offset type
      in (r, w\<lparr>trace := trace w @ [Glib (E_io_seek g offset type r)]\<rparr>))"

definition raw_channel_create_watch ::
  "platform \<Rightarrow> ref \<Rightarrow> nat \<Rightarrow> world \<Rightarrow> GSource \<times> world" where
  "raw_channel_create_watch P g cond w =
     (let r = io_create_watch (p_funcs P g) (trace w) g cond
      in (r, w\<lparr>trace := trace w @ [Glib (E_io_create_watch g cond r)]\<rparr>))"

definition raw_channel_set_flags ::
  "platform \<Rightarrow> ref \<Rightarrow> nat \<Rightarrow> world \<Rightarrow> GIOStatus \<times> world" where
  "raw_channel_set_flags P g flags w =
     (let r = io_set_flags (p_funcs P g) (trace w) g flags
      in (r, w\<lparr>trace := trace w @ [Glib (E_io_set_flags g flags r)]\<rparr>))"

definition raw_channel_get_flags :: "platform \<Rightarrow> ref \<Rightarrow> world \<Rightarrow> nat \<times> world" where
  "raw_channel_get_flags P g w =
     (let r = io_get_flags (p_funcs P g) (trace w) g
      in (r, w\<lparr>trace := trace w @ [Glib (E_io_get_flags g r)]\<rparr>))"

text \<open>
  A raw channel's functions find the descriptor they work on in the channel they are
  given; \<open>D h\<close> is the descriptor found at the channel pointer \<open>h\<close>. A function table
  \<^emph>\<open>reads the descriptor only\<close> when the answers of \<open>io_seek\<close>, \<open>io_set_flags\<close> and
  \<open>io_get_flags\<close> depend on the channel pointer through that descriptor alone: they agree
  on two channels with the same descriptor.
\<close>

definition reads_descriptor_only :: "(ref \<Rightarrow> int) \<Rightarrow> GIOFuncs \<Rightarrow> bool" where
  "reads_descriptor_only D F =
     (\<forall>tr h h'. D h = D h' \<longrightarrow>
        io_seek F tr h = io_seek F tr h' \<and> io_set_flags F tr h = io_set_flags F tr h' \<and>
        io_get_flags F tr h = io_get_flags F tr h')"

subsection \<open>Callers\<close>

text \<open>
  A caller's use of an open channel: a sequence of operations on the same handle, each
  started when the one before has returned.
\<close>

datatype op = Op_handshake | Op_read nat | Op_write "char list" nat | Op_seek int GSeekType
  | Op_close | Op_create_watch nat | Op_set_flags nat | Op_get_flags

datatype op_result = R_handshake int | R_io GIOStatus nat | R_status GIOStatus
  | R_source GSource | R_flags nat

fun do_op :: "platform \<Rightarrow> ref \<Rightarrow> op \<Rightarrow> world \<Rightarrow> op_result \<times> world" where
  "do_op P h Op_handshake w = (let (r, w') = irssi_ssl_handshake P h w in (R_handshake r, w'))"
| "do_op P h (Op_read len) w = (let ((st, n), w') = irssi_ssl_read P h len w in (R_io st n, w'))"
| "do_op P h (Op_write buf len) w =
     (let ((st, n), w') = irssi_ssl_write P h buf len w in (R_io st n, w'))"
| "do_op P h (Op_seek offset type) w =
     (let (r, w') = irssi_ssl_seek P h offset type w in (R_status r, w'))"
| "do_op P h Op_close w = (let (r, w') = irssi_ssl_close P h w in (R_status r, w'))"
| "do_op P h (Op_create_watch cond) w =
     (let (r, w') = irssi_ssl_create_watch P h cond w in (R_source r, w'))"
| "do_op P h (Op_set_flags flags) w =
     (let (r, w') = irssi_ssl_set_flags P h flags w in (R_status r, w'))"
| "do_op P h Op_get_flags w = (let (r, w') = irssi_ssl_get_flags P h w in (R_flags r, w'))"

fun run_ops :: "platform \<Rightarrow> ref \<Rightarrow> op list \<Rightarrow> world \<Rightarrow> op_result list \<times> world" where
  "run_ops P h [] w = ([], w)"
| "run_ops P h (x # xs) w =
     (let (r, w1) = do_op P h x w; (rs, w2) = run_ops P h xs w1 in (r # rs, w2))"

text \<open>A whole session: connect, then use the channel if there is one.\<close>

definition session ::
  "platform \<Rightarrow> nat \<Rightarrow> nat \<Rightarrow> string option \<Rightarrow> nat \<Rightarrow> string option \<Rightarrow> string option
    \<Rightarrow> string option \<Rightarrow> string option \<Rightarrow> bool \<Rightarrow> op list \<Rightarrow> world
    \<Rightarrow> (ref outcome \<times> op_result list \<times> world) option" where
  "session P ip port hostname' my_ip cert pkey cafile capath verify' ops w =
     (case net_connect_ip_ssl P ip port hostname' my_ip cert pkey cafile capath verify' w of
        None \<Rightarrow> None
      | Some (Aborted, w1) \<Rightarrow> Some (Aborted, [], w1)
      | Some (Returned h, w1) \<Rightarrow>
          if h = NULL then Some (Returned NULL, [], w1)
          else (let (rs, w2) = run_ops P h ops w1 in Some (Returned h, rs, w2)))"

subsection \<open>Reading a trace\<close>

text \<open>
  The releases in a trace are the disposals of a crypto context and the unreferences of a
  raw channel. The panel calls are the calls of \<open>irssibridge_present_trust_panel\<close>, each
  with the trust chain it was given and its answer. The engine calls are the calls into
  the Secure Transport and Security frameworks.
\<close>

fun is_release :: "event \<Rightarrow> bool" where
  "is_release (Ssl (E_SSLDisposeContext c)) = True"
| "is_release (Glib (E_g_io_channel_unref g)) = True"
| "is_release e = False"

definition releases :: "trace \<Rightarrow> trace" where
  "releases tr = filter is_release tr"

fun panel_calls :: "trace \<Rightarrow> (ref \<times> int) list" where
  "panel_calls [] = []"
| "panel_calls (Sec (E_present_trust_panel t c) # es) = (t, c) # panel_calls es"
| "panel_calls (e # es) = panel_calls es"

fun is_engine_call :: "event \<Rightarrow> bool" where
  "is_engine_call (Ssl e) = True"
| "is_engine_call (Sec e) = True"
| "is_engine_call e = False"

fun is_raw_io :: "event \<Rightarrow> bool" where
  "is_raw_io (Sock e) = True"
| "is_raw_io e = False"

text \<open>
  The identity provider does not know the name \<open>cert\<close>: whenever it is asked, the lookup
  returns \<open>NULL\<close>.
\<close>

definition lookup_fails :: "platform \<Rightarrow> string \<Rightarrow> bool" where
  "lookup_fails P cert =
     (\<forall>pkey tr. \<exists>tr'. CreateIdentityFromCommonName P cert pkey tr = Some (NULL, tr'))"

subsection \<open>An example platform\<close>

text \<open>
  A platform on which every call succeeds at once: the descriptor 5 is writable, reads
  find no data, writes accept everything, the keychain is empty, the peer's chain
  validates, and the raw channel's watch remembers the channel it was created on.
\<close>

definition example_funcs :: GIOFuncs where
  "example_funcs =
     \<lparr>io_seek = (\<lambda>tr h offset type. G_IO_STATUS_NORMAL),
      io_close = (\<lambda>tr h. G_IO_STATUS_NORMAL),
      io_create_watch = (\<lambda>tr h cond.
         \<lparr>watch_channel = h, watch_fd = 5, watch_condition = cond\<rparr>),
      io_set_flags = (\<lambda>tr h flags. G_IO_STATUS_NORMAL),
      io_get_flags = (\<lambda>tr h. 0)\<rparr>"

definition example_platform :: platform where
  "example_platform =
     \<lparr>p_read = (\<lambda>tr d n. Read_fail EAGAIN),
      p_write = (\<lambda>tr d bs. Write_ok (length bs)),
      p_select = (\<lambda>tr nfds rs ws es timeout. (1, Eother 0)),
      p_g_io_channel_unix_get_fd = (\<lambda>tr h. 5),
      p_g_new0 = (\<lambda>tr. 100),
      p_net_connect_ip = (\<lambda>tr ip port my_ip. 50),
      p_funcs = (\<lambda>g. example_funcs),
      p_SSLNewContext = (\<lambda>tr isServer. (noErr, 200)),
      p_SSLSetIOFuncs = (\<lambda>tr c. noErr),
      p_SSLSetCertificate = (\<lambda>tr c certs. noErr),
      p_SSLSetEncryptionCertificate = (\<lambda>tr c certs. noErr),
      p_SSLSetConnection = (\<lambda>tr c conn. noErr),
      p_SSLHandshake = (\<lambda>tr c. noErr),
      p_SSLCopyPeerTrust = (\<lambda>tr c. (noErr, 300)),
      p_SSLRead = (\<lambda>tr c len. (noErr, len)),
      p_SSLWrite = (\<lambda>tr c bs. (noErr, length bs)),
      p_SecTrustEvaluate = (\<lambda>tr t. (noErr, kSecTrustResultProceed)),
      p_present_trust_panel = (\<lambda>tr t. 1),
      p_SecIdentitySearchCreate = (\<lambda>tr. (noErr, 400)),
      p_SecIdentitySearchCopyNext = (\<lambda>tr s. (errOther 25300, NULL)),
      p_SecIdentityCopyCertificate = (\<lambda>tr i. (noErr, 500)),
      p_SecCertificateCopyCommonName = (\<lambda>tr c. (noErr, 600)),
      p_CFStringCreateWithCString = (\<lambda>tr s. 700),
      p_CFStringCompare = (\<lambda>tr a b. False),
      p_CFArrayCreate = (\<lambda>tr xs. 800)\<rparr>"

text \<open>A channel object for the descriptor 5 at address 100, and memory that holds it.\<close>

definition example_channel :: GIOSSLChannel where
  "example_channel =
     \<lparr>pad_funcs = irssi_ssl_channel_funcs, pad_is_readable = True, pad_is_writeable = True,
      pad_use_buffer = False, fd = 5, giochan = 50, context' = 200, verify = False,
      hostname = None\<rparr>"

definition example_world :: world where
  "example_world = \<lparr>trace = [], heap = (\<lambda>p. example_channel)\<rparr>"

text \<open>
  Two more platforms: a descriptor that delivers \<open>ab\<close> to the first read and then has no
  data, and one that accepts three bytes per write but reports \<open>EAGAIN\<close> to the second
  call made on it.
\<close>

definition two_byte_reader :: platform where
  "two_byte_reader = example_platform\<lparr>p_read := \<lambda>tr d n.
       if tr = [] then Read_ok (take n ''ab'') else Read_fail EAGAIN\<rparr>"

definition stalling_writer :: platform where
  "stalling_writer = example_platform\<lparr>p_write := \<lambda>tr d bs.
       if length tr = 1 then Write_fail EAGAIN else Write_ok (min 3 (length bs))\<rparr>"

text \<open>A descriptor at end of stream: every read returns 0 bytes and no error.\<close>

definition end_of_stream :: platform where
  "end_of_stream = example_platform\<lparr>p_read := \<lambda>tr d n. Read_ok []\<rparr>"

text \<open>A descriptor that is not writable yet: \<open>select\<close> returns 0.\<close>

definition not_writable :: platform where
  "not_writable = example_platform\<lparr>p_select := \<lambda>tr nfds rs ws es timeout. (0, Eother 0)\<rparr>"

text \<open>
  A peer whose chain the built-in validation denies and whom the trust panel rejects; an
  engine that has nothing to read and has been closed for writing.
\<close>

definition rejected_peer :: platform where
  "rejected_peer = example_platform\<lparr>p_SecTrustEvaluate := \<lambda>tr t. (noErr, kSecTrustResultDeny),
       p_present_trust_panel := \<lambda>tr t. 0\<rparr>"

definition refusing_engine :: platform where
  "refusing_engine = example_platform\<lparr>p_SSLRead := \<lambda>tr c len. (errSSLWouldBlock, 7),
       p_SSLWrite := \<lambda>tr c bs. (errSSLClosedGraceful, 0)\<rparr>"

text \<open>
  Raw channels whose functions work on the descriptor found at the channel pointer: the
  raw channel at 50 and the channel object at 100 that wraps it both hold the descriptor
  5. Seeking and the flags succeed on the descriptor 5 only, and a watch records the
  channel it was created on and that channel's descriptor.
\<close>

definition example_descriptor :: "ref \<Rightarrow> int" where
  "example_descriptor h = (if h = 100 \<or> h = 50 then 5 else 0)"

definition descriptor_funcs :: GIOFuncs where
  "descriptor_funcs =
     \<lparr>io_seek = (\<lambda>tr h offset type.
         if example_descriptor h = 5 then G_IO_STATUS_NORMAL else G_IO_STATUS_ERROR),
      io_close = (\<lambda>tr h. G_IO_STATUS_NORMAL),
      io_create_watch = (\<lambda>tr h cond.
         \<lparr>watch_channel = h, watch_fd = example_descriptor h, watch_condition = cond\<rparr>),
      io_set_flags = (\<lambda>tr h flags.
         if example_descriptor h = 5 then G_IO_STATUS_NORMAL else G_IO_STATUS_ERROR),
      io_get_flags = (\<lambda>tr h. if example_descriptor h = 5 then 2 else 0)\<rparr>"

definition descriptor_platform :: platform where
  "descriptor_platform = example_platform\<lparr>p_funcs := \<lambda>g. descriptor_funcs\<rparr>"

subsection \<open>Postconditions of the relay loops\<close>

text \<open>
  What holds when a relay loop that was entered with \<open>len\<close> bytes done returns: the trace
  has grown by the calls made; the status is \<open>noErr\<close> with the full length when no raw call
  failed, \<open>errSSLWouldBlock\<close> with a partial count when the one failure was \<open>EAGAIN\<close>, and
  \<open>errSSLInternal\<close> when it was another error; and, unless the status is \<open>errSSLInternal\<close>,
  the first \<open>n\<close> bytes of the buffer are the bytes done before followed by the bytes the
  descriptor transferred during the call.
\<close>

definition read_post ::
  "int \<Rightarrow> nat \<Rightarrow> nat \<Rightarrow> char list \<Rightarrow> trace \<Rightarrow> OSStatus \<times> char list \<times> nat \<times> trace \<Rightarrow> bool" where
  "read_post d dl len data tr r =
     (case r of (st, data', n, tr') \<Rightarrow>
        \<exists>new. tr' = tr @ new \<and> length data' = length data \<and>
          (io_failures new = [] \<and> st = noErr \<and> n = dl \<or>
           io_failures new = [EAGAIN] \<and> st = errSSLWouldBlock \<and> n < dl \<or>
           (\<exists>e. e \<noteq> EAGAIN \<and> io_failures new = [e] \<and> st = errSSLInternal \<and> n = dl)) \<and>
          (st \<noteq> errSSLInternal \<longrightarrow> len \<le> n \<and> take n data' = take len data @ bytes_read d new))"

definition write_post ::
  "int \<Rightarrow> char list \<Rightarrow> nat \<Rightarrow> nat \<Rightarrow> trace \<Rightarrow> OSStatus \<times> nat \<times> trace \<Rightarrow> bool" where
  "write_post d data dl len tr r =
     (case r of (st, n, tr') \<Rightarrow>
        \<exists>new. tr' = tr @ new \<and> (\<forall>c \<in> set (write_chunks new). c \<le> 4096) \<and>
          (io_failures new = [] \<and> st = noErr \<and> n = dl \<or>
           io_failures new = [EAGAIN] \<and> st = errSSLWouldBlock \<and> n < dl \<or>
           (\<exists>e. e \<noteq> EAGAIN \<and> io_failures new = [e] \<and> st = errSSLInternal \<and> n = dl)) \<and>
          (st \<noteq> errSSLInternal \<longrightarrow> len \<le> n \<and> take n data = take len data @ bytes_written d new))"

subsection \<open>Keychain calls\<close>

text \<open>
  The calls that \<open>CreateIdentityFromCommonName\<close> makes are calls into the Security and
  CoreFoundation frameworks and warnings. A trace grows by keychain calls when it is
  extended by such calls only.
\<close>

fun is_keychain_call :: "event \<Rightarrow> bool" where
  "is_keychain_call (Sec e) = True"
| "is_keychain_call (Glib (E_g_warning m)) = True"
| "is_keychain_call e = False"

definition grows_by_keychain_calls :: "trace \<Rightarrow> trace \<Rightarrow> bool" where
  "grows_by_keychain_calls tr tr' = (\<exists>new. tr' = tr @ new \<and> list_all is_keychain_call new)"

section \<open>Properties\<close>

subsection \<open>The byte relay\<close>

lemma bytes_read_append: "bytes_read d (xs @ ys) = bytes_read d xs @ bytes_read d ys"
  by (induction d xs rule: bytes_read.induct) simp_all

lemma io_failures_append: "io_failures (xs @ ys) = io_failures xs @ io_failures ys"
  by (induction xs rule: io_failures.induct) simp_all

lemma length_store_bytes:
  "off + length bs \<le> length data \<Longrightarrow> length (store_bytes data off bs) = length data"
  by (simp add: store_bytes_def)

lemma take_store_bytes:
  "off \<le> length data \<Longrightarrow> take (off + length bs) (store_bytes data off bs) = take off data @ bs"
  by (simp add: store_bytes_def)

lemma SSLReadFunction_loop_sound:
  assumes "SSLReadFunction_loop P d dl len data tr = Some r"
  shows "posix_read P \<longrightarrow> len \<le> dl \<longrightarrow> dl \<le> length data \<longrightarrow> read_post d dl len data tr r"
proof -
  have "(\<lambda>(((((P, d), dl), len), data), tr) r.
          posix_read P \<longrightarrow> len \<le> dl \<longrightarrow> dl \<le> length data \<longrightarrow> read_post d dl len data tr r)
        (((((P, d), dl), len), data), tr) r"
  proof (rule SSLReadFunction_loop.raw_induct [OF _ assms], goal_cases)
    case (1 f P d dl len data tr r)
    show ?case
    proof (clarify)
      assume px: "posix_read P" and le: "len \<le> dl" and buf: "dl \<le> length data"
      show "read_post d dl len data tr r"
      proof (cases "len < dl")
        case False
        with 1(2) le show ?thesis by (auto simp: read_post_def)
      next
        case True
        show ?thesis
        proof (cases "p_read P tr d (dl - len)")
          case (Read_fail e)
          with True 1(2) le show ?thesis
            by (auto simp: read_post_def Let_def io_failures_append bytes_read_append split: if_splits)
        next
          case (Read_ok bs)
          with px have bl: "length bs \<le> dl - len" by (auto simp: posix_read_def)
          let ?tr1 = "tr @ [Sock (E_read d (dl - len) (Read_ok bs))]"
          from True Read_ok 1(2)
          have rec: "f P d dl (len + length bs) (store_bytes data len bs) ?tr1 = Some r"
            by (simp add: Let_def)
          from 1(1) [OF rec] px bl True buf
          have ih: "read_post d dl (len + length bs) (store_bytes data len bs) ?tr1 r"
            by (simp add: length_store_bytes)
          obtain st data' n tr' where r: "r = (st, data', n, tr')" by (cases r) auto
          from ih r obtain new where new: "tr' = ?tr1 @ new"
            "length data' = length (store_bytes data len bs)"
            "io_failures new = [] \<and> st = noErr \<and> n = dl \<or>
             io_failures new = [EAGAIN] \<and> st = errSSLWouldBlock \<and> n < dl \<or>
             (\<exists>e. e \<noteq> EAGAIN \<and> io_failures new = [e] \<and> st = errSSLInternal \<and> n = dl)"
            "st \<noteq> errSSLInternal \<longrightarrow> len + length bs \<le> n \<and>
               take n data' = take (len + length bs) (store_bytes data len bs) @ bytes_read d new"
            unfolding read_post_def by auto
          let ?new = "Sock (E_read d (dl - len) (Read_ok bs)) # new"
          have a: "tr' = tr @ ?new" using new(1) by simp
          have b: "length data' = length data"
            using new(2) bl True buf by (simp add: length_store_bytes)
          have c: "io_failures ?new = io_failures new" by simp
          have d: "st \<noteq> errSSLInternal \<longrightarrow>
                     len \<le> n \<and> take n data' = take len data @ bytes_read d ?new"
            using new(4) True buf
            by (cases "st = errSSLInternal") (simp_all add: take_store_bytes)
          show ?thesis
            unfolding read_post_def r prod.case
            by (rule exI [of _ ?new]) (use a b c d new(3) in simp)
        qed
      qed
    qed
  qed
  then show ?thesis by simp
qed

lemma SSLReadFunction_loop_returns:
  assumes "posix_read P" "read_progress P"
  shows "len \<le> dl \<Longrightarrow> \<exists>r. SSLReadFunction_loop P d dl len data tr = Some r"
proof (induction "dl - len" arbitrary: len data tr rule: less_induct)
  case less
  show ?case
  proof (cases "len < dl")
    case False
    then show ?thesis by (subst SSLReadFunction_loop.simps) simp
  next
    case True
    show ?thesis
    proof (cases "p_read P tr d (dl - len)")
      case (Read_fail e)
      with True show ?thesis by (subst SSLReadFunction_loop.simps) (simp add: Let_def)
    next
      case (Read_ok bs)
      with assms True have "length bs \<le> dl - len" "bs \<noteq> []"
        by (auto simp: posix_read_def read_progress_def)
      then have "dl - (len + length bs) < dl - len" "len + length bs \<le> dl"
        using True by (cases bs, simp_all)
      from less(1) [OF this]
      obtain r where "SSLReadFunction_loop P d dl (len + length bs) (store_bytes data len bs)
          (tr @ [Sock (E_read d (dl - len) (Read_ok bs))]) = Some r" by blast
      with True Read_ok have "SSLReadFunction_loop P d dl len data tr = Some r"
        by (subst SSLReadFunction_loop.simps) (simp add: Let_def)
      then show ?thesis by blast
    qed
  qed
qed

lemma SSLReadFunction_loop_eof:
  assumes eof: "\<forall>tr d n. p_read P tr d n = Read_ok []"
  shows "len < dl \<Longrightarrow> SSLReadFunction_loop P d dl len data tr = None"
proof (rule ccontr)
  assume lt: "len < dl" and "SSLReadFunction_loop P d dl len data tr \<noteq> None"
  then obtain r where run: "SSLReadFunction_loop P d dl len data tr = Some r" by auto
  have "(\<lambda>(((((P, d), dl), len), data), tr) r.
          (\<forall>tr d n. p_read P tr d n = Read_ok []) \<longrightarrow> \<not> len < dl)
        (((((P, d), dl), len), data), tr) r"
  proof (rule SSLReadFunction_loop.raw_induct [OF _ run], goal_cases)
    case (1 f P d dl len data tr r)
    show ?case
    proof (clarify)
      assume e: "\<forall>tr d n. p_read P tr d n = Read_ok []" and l: "len < dl"
      from 1(2) e l have "f P d dl len (store_bytes data len [])
         (tr @ [Sock (E_read d (dl - len) (Read_ok []))]) = Some r"
        by (simp add: Let_def)
      from 1(1) [OF this] e l show False by simp
    qed
  qed
  with eof lt show False by simp
qed

lemma bytes_written_append:
  "bytes_written d (xs @ ys) = bytes_written d xs @ bytes_written d ys"
  by (induction d xs rule: bytes_written.induct) simp_all

lemma write_chunks_append: "write_chunks (xs @ ys) = write_chunks xs @ write_chunks ys"
  by (induction xs rule: write_chunks.induct) simp_all

lemma take_plus_drop: "take (i + j) xs = take i xs @ take j (drop i xs)"
  by (simp add: take_add)

lemma SSLWriteFunction_loop_sound:
  assumes "SSLWriteFunction_loop P d data dl len tr = Some r"
  shows "posix_write P \<longrightarrow> len \<le> dl \<longrightarrow> dl \<le> length data \<longrightarrow> write_post d data dl len tr r"
proof -
  have "(\<lambda>(((((P, d), data), dl), len), tr) r.
          posix_write P \<longrightarrow> len \<le> dl \<longrightarrow> dl \<le> length data \<longrightarrow> write_post d data dl len tr r)
        (((((P, d), data), dl), len), tr) r"
  proof (rule SSLWriteFunction_loop.raw_induct [OF _ assms], goal_cases)
    case (1 f P d data dl len tr r)
    show ?case
    proof (clarify)
      assume px: "posix_write P" and le: "len \<le> dl" and buf: "dl \<le> length data"
      show "write_post d data dl len tr r"
      proof (cases "len < dl")
        case False
        with 1(2) le show ?thesis by (auto simp: write_post_def)
      next
        case True
        define chunk where "chunk = (if dl - len < 4096 then dl - len else 4096)"
        define bytes where "bytes = take chunk (drop len data)"
        have chunk: "chunk \<le> 4096" "chunk \<le> dl - len" by (simp_all add: chunk_def)
        have lb: "length bytes = chunk" using chunk buf by (simp add: bytes_def)
        show ?thesis
        proof (cases "p_write P tr d bytes")
          case (Write_fail e)
          with True 1(2) le chunk lb show ?thesis
            by (auto simp: write_post_def Let_def chunk_def [symmetric] bytes_def [symmetric]
                  io_failures_append bytes_written_append write_chunks_append split: if_splits)
        next
          case (Write_ok k)
          with px lb have k: "k \<le> chunk" by (auto simp: posix_write_def)
          let ?tr1 = "tr @ [Sock (E_write d bytes (Write_ok k))]"
          from True Write_ok 1(2)
          have rec: "f P d data dl (len + k) ?tr1 = Some r"
            by (simp add: Let_def chunk_def [symmetric] bytes_def [symmetric])
          from k chunk True have "len + k \<le> dl" by simp
          with 1(1) [OF rec] px buf
          have ih: "write_post d data dl (len + k) ?tr1 r" by simp
          obtain st n tr' where r: "r = (st, n, tr')" by (cases r) auto
          from ih r obtain new where new: "tr' = ?tr1 @ new"
            "\<forall>c \<in> set (write_chunks new). c \<le> 4096"
            "io_failures new = [] \<and> st = noErr \<and> n = dl \<or>
             io_failures new = [EAGAIN] \<and> st = errSSLWouldBlock \<and> n < dl \<or>
             (\<exists>e. e \<noteq> EAGAIN \<and> io_failures new = [e] \<and> st = errSSLInternal \<and> n = dl)"
            "st \<noteq> errSSLInternal \<longrightarrow> len + k \<le> n \<and>
               take n data = take (len + k) data @ bytes_written d new"
            unfolding write_post_def by auto
          let ?new = "Sock (E_write d bytes (Write_ok k)) # new"
          have a: "tr' = tr @ ?new" using new(1) by simp
          have b: "\<forall>c \<in> set (write_chunks ?new). c \<le> 4096" using new(2) lb chunk by simp
          have c: "io_failures ?new = io_failures new" by simp
          have tk: "take k bytes = take k (drop len data)" using k by (simp add: bytes_def)
          have d: "st \<noteq> errSSLInternal \<longrightarrow>
                     len \<le> n \<and> take n data = take len data @ bytes_written d ?new"
            using new(4) tk by (cases "st = errSSLInternal") (simp_all add: take_plus_drop)
          show ?thesis
            unfolding write_post_def r prod.case
            by (rule exI [of _ ?new]) (use a b c d new(3) in simp)
        qed
      qed
    qed
  qed
  then show ?thesis by simp
qed

lemma SSLWriteFunction_loop_returns:
  assumes "posix_write P" "write_progress P" "dl \<le> length data"
  shows "len \<le> dl \<Longrightarrow> \<exists>r. SSLWriteFunction_loop P d data dl len tr = Some r"
proof (induction "dl - len" arbitrary: len tr rule: less_induct)
  case less
  show ?case
  proof (cases "len < dl")
    case False
    then show ?thesis by (subst SSLWriteFunction_loop.simps) simp
  next
    case True
    define chunk where "chunk = (if dl - len < 4096 then dl - len else 4096)"
    define bytes where "bytes = take chunk (drop len data)"
    have chunk: "0 < chunk" "chunk \<le> dl - len" using True by (simp_all add: chunk_def)
    have lb: "length bytes = chunk" using chunk assms(3) by (simp add: bytes_def)
    show ?thesis
    proof (cases "p_write P tr d bytes")
      case (Write_fail e)
      with True show ?thesis
        by (subst SSLWriteFunction_loop.simps)
           (simp add: Let_def chunk_def [symmetric] bytes_def [symmetric])
    next
      case (Write_ok k)
      with assms(1) lb have "k \<le> chunk" by (auto simp: posix_write_def)
      moreover from lb chunk have "bytes \<noteq> []" by auto
      with assms(2) have "p_write P tr d bytes \<noteq> Write_ok 0"
        unfolding write_progress_def by blast
      with Write_ok have "k \<noteq> 0" by auto
      ultimately have "k \<le> chunk" "k \<noteq> 0" by simp_all
      then have "dl - (len + k) < dl - len" "len + k \<le> dl"
        using True chunk by simp_all
      from less(1) [OF this]
      obtain r where "SSLWriteFunction_loop P d data dl (len + k)
          (tr @ [Sock (E_write d bytes (Write_ok k))]) = Some r" by blast
      with True Write_ok have "SSLWriteFunction_loop P d data dl len tr = Some r"
        by (subst SSLWriteFunction_loop.simps)
           (simp add: Let_def chunk_def [symmetric] bytes_def [symmetric])
      then show ?thesis by blast
    qed
  qed
qed

text \<open>
  Claim C4. When \<open>_SSLReadFunction\<close> returns, the trace has grown by the raw reads it
  made. If none of them failed the status is \<open>noErr\<close> and all \<open>dataLength\<close> bytes are
  collected; if a read reported \<open>EAGAIN\<close> the status is \<open>errSSLWouldBlock\<close> and the count
  is partial; if a read failed with any other error the status is \<open>errSSLInternal\<close>. Unless
  the status is \<open>errSSLInternal\<close>, the first \<open>n\<close> bytes of the buffer are exactly the bytes
  that the raw reads delivered, in order, where \<open>n\<close> is the reported count: nothing that was
  transferred is dropped. On a descriptor that makes progress the function returns.
\<close>

theorem relayRead_partial_count:
  assumes "posix_read P" and "dataLength \<le> length data"
  shows "(read_progress P \<longrightarrow> (\<exists>r. SSLReadFunction P connection data dataLength w = Some r)) \<and>
    (\<forall>status data' n w'.
       SSLReadFunction P connection data dataLength w = Some (status, data', n, w') \<longrightarrow>
       (\<exists>new. trace w' = trace w @ new \<and> heap w' = heap w \<and>
          (status = noErr \<and> io_failures new = [] \<and> n = dataLength \<or>
           status = errSSLWouldBlock \<and> io_failures new = [EAGAIN] \<and> n < dataLength \<or>
           status = errSSLInternal \<and> (\<exists>e. e \<noteq> EAGAIN \<and> io_failures new = [e])) \<and>
          (status \<noteq> errSSLInternal \<longrightarrow>
             take n data' = bytes_read (fd (heap w connection)) new)))"
proof (intro conjI allI impI)
  assume "read_progress P"
  with assms(1) obtain r where
    "SSLReadFunction_loop P (fd (heap w connection)) dataLength 0 data (trace w) = Some r"
    using SSLReadFunction_loop_returns [of P 0 dataLength] by blast
  then show "\<exists>r. SSLReadFunction P connection data dataLength w = Some r"
    by (cases r) (simp add: SSLReadFunction_def)
next
  fix status data' n w'
  assume run: "SSLReadFunction P connection data dataLength w = Some (status, data', n, w')"
  then obtain tr' where
    loop: "SSLReadFunction_loop P (fd (heap w connection)) dataLength 0 data (trace w)
             = Some (status, data', n, tr')"
    and w': "w' = w\<lparr>trace := tr'\<rparr>"
    by (auto simp: SSLReadFunction_def split: option.splits)
  from SSLReadFunction_loop_sound [OF loop] assms
  have "read_post (fd (heap w connection)) dataLength 0 data (trace w) (status, data', n, tr')"
    by simp
  then obtain new where "tr' = trace w @ new"
    "io_failures new = [] \<and> status = noErr \<and> n = dataLength \<or>
     io_failures new = [EAGAIN] \<and> status = errSSLWouldBlock \<and> n < dataLength \<or>
     (\<exists>e. e \<noteq> EAGAIN \<and> io_failures new = [e] \<and> status = errSSLInternal \<and> n = dataLength)"
    "status \<noteq> errSSLInternal \<longrightarrow> take n data' = bytes_read (fd (heap w connection)) new"
    unfolding read_post_def by auto
  with w' show "\<exists>new. trace w' = trace w @ new \<and> heap w' = heap w \<and>
          (status = noErr \<and> io_failures new = [] \<and> n = dataLength \<or>
           status = errSSLWouldBlock \<and> io_failures new = [EAGAIN] \<and> n < dataLength \<or>
           status = errSSLInternal \<and> (\<exists>e. e \<noteq> EAGAIN \<and> io_failures new = [e])) \<and>
          (status \<noteq> errSSLInternal \<longrightarrow>
             take n data' = bytes_read (fd (heap w connection)) new)"
    by (intro exI [of _ new]) auto
qed

theorem relayRead_partial_count_witness:
  "posix_read two_byte_reader \<and> read_progress two_byte_reader \<and>
   (4::nat) \<le> length ''0000'' \<and>
   SSLReadFunction two_byte_reader 100 ''0000'' 4 example_world
   = Some (errSSLWouldBlock, ''ab00'', 2,
       example_world\<lparr>trace := [Sock (E_read 5 4 (Read_ok ''ab'')),
                                Sock (E_read 5 2 (Read_fail EAGAIN))]\<rparr>) \<and>
   take 2 ''ab00'' = bytes_read 5 [Sock (E_read 5 4 (Read_ok ''ab'')),
                                  Sock (E_read 5 2 (Read_fail EAGAIN))]"
  using relayRead_partial_count [of two_byte_reader 4 "''0000''" 100 example_world]
  by (simp add: posix_read_def read_progress_def two_byte_reader_def example_platform_def example_world_def example_channel_def
        SSLReadFunction_def SSLReadFunction_loop.simps Let_def store_bytes_def)

text \<open>
  Claim C5. The claim is that \<open>_SSLReadFunction\<close> returns whatever the descriptor does, also
  when a raw read delivers zero bytes without an error. On a descriptor at end of stream,
  asked for one byte, it does not return: each read adds nothing to \<open>len\<close> and the loop
  goes round again.
\<close>

theorem relayRead_spins_at_end_of_stream:
  "SSLReadFunction end_of_stream 100 ''0'' 1 example_world = None"
  by (simp add: SSLReadFunction_def SSLReadFunction_loop_eof end_of_stream_def)

lemma SSLWriteFunction_sound:
  assumes "posix_write P" and "dataLength \<le> length data"
    and run: "SSLWriteFunction P connection data dataLength w = Some (status, n, w')"
  shows "\<exists>new. trace w' = trace w @ new \<and> heap w' = heap w \<and>
          (\<forall>c \<in> set (write_chunks new). c \<le> 4096) \<and>
          (status = noErr \<and> io_failures new = [] \<and> n = dataLength \<or>
           status = errSSLWouldBlock \<and> io_failures new = [EAGAIN] \<and> n < dataLength \<or>
           status = errSSLInternal \<and> (\<exists>e. e \<noteq> EAGAIN \<and> io_failures new = [e])) \<and>
          (status \<noteq> errSSLInternal \<longrightarrow>
             bytes_written (fd (heap w connection)) new = take n data)"
proof -
  from run obtain tr' where
    loop: "SSLWriteFunction_loop P (fd (heap w connection)) data dataLength 0 (trace w)
             = Some (status, n, tr')"
    and w': "w' = w\<lparr>trace := tr'\<rparr>"
    by (auto simp: SSLWriteFunction_def split: option.splits)
  from SSLWriteFunction_loop_sound [OF loop] assms(1,2)
  have "write_post (fd (heap w connection)) data dataLength 0 (trace w) (status, n, tr')"
    by simp
  then obtain new where "tr' = trace w @ new"
    "\<forall>c \<in> set (write_chunks new). c \<le> 4096"
    "io_failures new = [] \<and> status = noErr \<and> n = dataLength \<or>
     io_failures new = [EAGAIN] \<and> status = errSSLWouldBlock \<and> n < dataLength \<or>
     (\<exists>e. e \<noteq> EAGAIN \<and> io_failures new = [e] \<and> status = errSSLInternal \<and> n = dataLength)"
    "status \<noteq> errSSLInternal \<longrightarrow> take n data = bytes_written (fd (heap w connection)) new"
    unfolding write_post_def by auto
  with w' show ?thesis
    by (intro exI [of _ new]) auto
qed

text \<open>
  Claim C3. When \<open>_SSLWriteFunction\<close> returns, every raw write it made was offered at most
  4096 bytes. If none failed the status is \<open>noErr\<close> and all \<open>dataLength\<close> bytes were
  accepted; if a write reported \<open>EAGAIN\<close> the status is \<open>errSSLWouldBlock\<close> and the reported
  count \<open>n\<close> is exactly the number of bytes accepted, which are the first \<open>n\<close> of the buffer.
  A caller that then calls again with the buffer advanced by \<open>n\<close> and the length reduced by
  \<open>n\<close>, and is told \<open>noErr\<close>, has had the descriptor accept the buffer's \<open>dataLength\<close> bytes
  once each and in order. On a descriptor that makes progress the function returns.
\<close>

theorem relayWrite_resumes_at_reported_offset:
  assumes "posix_write P" and "dataLength \<le> length data"
  shows "(write_progress P \<longrightarrow> (\<exists>r. SSLWriteFunction P connection data dataLength w = Some r)) \<and>
    (\<forall>status n w'.
       SSLWriteFunction P connection data dataLength w = Some (status, n, w') \<longrightarrow>
       (\<exists>new. trace w' = trace w @ new \<and> heap w' = heap w \<and>
          (\<forall>c \<in> set (write_chunks new). c \<le> 4096) \<and>
          (status = noErr \<and> io_failures new = [] \<and> n = dataLength \<or>
           status = errSSLWouldBlock \<and> io_failures new = [EAGAIN] \<and> n < dataLength \<or>
           status = errSSLInternal \<and> (\<exists>e. e \<noteq> EAGAIN \<and> io_failures new = [e])) \<and>
          (status \<noteq> errSSLInternal \<longrightarrow>
             bytes_written (fd (heap w connection)) new = take n data) \<and>
          (status = errSSLWouldBlock \<longrightarrow>
             (\<forall>w1 n2 w2. heap w1 = heap w \<longrightarrow>
                SSLWriteFunction P connection (drop n data) (dataLength - n) w1
                  = Some (noErr, n2, w2) \<longrightarrow>
                (\<exists>new2. trace w2 = trace w1 @ new2 \<and> n + n2 = dataLength \<and>
                   (\<forall>c \<in> set (write_chunks new2). c \<le> 4096) \<and>
                   bytes_written (fd (heap w connection)) new
                     @ bytes_written (fd (heap w connection)) new2
                   = take dataLength data)))))"
proof (intro conjI allI impI)
  assume "write_progress P"
  with assms obtain r where
    "SSLWriteFunction_loop P (fd (heap w connection)) data dataLength 0 (trace w) = Some r"
    using SSLWriteFunction_loop_returns [of P dataLength data 0] by blast
  then show "\<exists>r. SSLWriteFunction P connection data dataLength w = Some r"
    by (cases r) (simp add: SSLWriteFunction_def)
next
  fix status n w'
  assume run: "SSLWriteFunction P connection data dataLength w = Some (status, n, w')"
  let ?d = "fd (heap w connection)"
  from SSLWriteFunction_sound [OF assms run]
  obtain new where new: "trace w' = trace w @ new" "heap w' = heap w"
    "\<forall>c \<in> set (write_chunks new). c \<le> 4096"
    "status = noErr \<and> io_failures new = [] \<and> n = dataLength \<or>
     status = errSSLWouldBlock \<and> io_failures new = [EAGAIN] \<and> n < dataLength \<or>
     status = errSSLInternal \<and> (\<exists>e. e \<noteq> EAGAIN \<and> io_failures new = [e])"
    "status \<noteq> errSSLInternal \<longrightarrow> bytes_written ?d new = take n data"
    by blast
  have resume: "status = errSSLWouldBlock \<longrightarrow>
             (\<forall>w1 n2 w2. heap w1 = heap w \<longrightarrow>
                SSLWriteFunction P connection (drop n data) (dataLength - n) w1
                  = Some (noErr, n2, w2) \<longrightarrow>
                (\<exists>new2. trace w2 = trace w1 @ new2 \<and> n + n2 = dataLength \<and>
                   (\<forall>c \<in> set (write_chunks new2). c \<le> 4096) \<and>
                   bytes_written ?d new @ bytes_written ?d new2 = take dataLength data))"
  proof (intro impI allI)
    fix w1 n2 w2
    assume wb: "status = errSSLWouldBlock" and h: "heap w1 = heap w"
      and run2: "SSLWriteFunction P connection (drop n data) (dataLength - n) w1
                   = Some (noErr, n2, w2)"
    from wb new(4) have n: "n < dataLength" by auto
    from wb new(5) have first: "bytes_written ?d new = take n data" by simp
    from assms(2) have "dataLength - n \<le> length (drop n data)" by simp
    from SSLWriteFunction_sound [OF assms(1) this run2]
    obtain new2 where new2: "trace w2 = trace w1 @ new2"
      "\<forall>c \<in> set (write_chunks new2). c \<le> 4096"
      "n2 = dataLength - n"
      "bytes_written (fd (heap w1 connection)) new2 = take n2 (drop n data)"
      by auto
    from n new2(3) have "n + n2 = dataLength" by simp
    moreover from this have "take dataLength data = take n data @ take n2 (drop n data)"
      using take_plus_drop [of n n2 data] by simp
    ultimately show "\<exists>new2. trace w2 = trace w1 @ new2 \<and> n + n2 = dataLength \<and>
                   (\<forall>c \<in> set (write_chunks new2). c \<le> 4096) \<and>
                   bytes_written ?d new @ bytes_written ?d new2 = take dataLength data"
      using new2 first h by (intro exI [of _ new2]) simp
  qed
  show "\<exists>new. trace w' = trace w @ new \<and> heap w' = heap w \<and>
          (\<forall>c \<in> set (write_chunks new). c \<le> 4096) \<and>
          (status = noErr \<and> io_failures new = [] \<and> n = dataLength \<or>
           status = errSSLWouldBlock \<and> io_failures new = [EAGAIN] \<and> n < dataLength \<or>
           status = errSSLInternal \<and> (\<exists>e. e \<noteq> EAGAIN \<and> io_failures new = [e])) \<and>
          (status \<noteq> errSSLInternal \<longrightarrow> bytes_written ?d new = take n data) \<and>
          (status = errSSLWouldBlock \<longrightarrow>
             (\<forall>w1 n2 w2. heap w1 = heap w \<longrightarrow>
                SSLWriteFunction P connection (drop n data) (dataLength - n) w1
                  = Some (noErr, n2, w2) \<longrightarrow>
                (\<exists>new2. trace w2 = trace w1 @ new2 \<and> n + n2 = dataLength \<and>
                   (\<forall>c \<in> set (write_chunks new2). c \<le> 4096) \<and>
                   bytes_written ?d new @ bytes_written ?d new2 = take dataLength data)))"
    using new resume by (intro exI [of _ new] conjI) assumption+
qed

theorem relayWrite_resumes_at_reported_offset_witness:
  "posix_write stalling_writer \<and> (5::nat) \<le> length ''hello'' \<and> write_progress stalling_writer \<and>
   SSLWriteFunction stalling_writer 100 ''hello'' 5 example_world
     = Some (errSSLWouldBlock, 3,
         example_world\<lparr>trace := [Sock (E_write 5 ''hello'' (Write_ok 3)),
                                  Sock (E_write 5 ''lo'' (Write_fail EAGAIN))]\<rparr>) \<and>
   SSLWriteFunction stalling_writer 100 (drop 3 ''hello'') (5 - 3)
       (example_world\<lparr>trace := [Sock (E_write 5 ''hello'' (Write_ok 3)),
                                Sock (E_write 5 ''lo'' (Write_fail EAGAIN))]\<rparr>)
     = Some (noErr, 2,
         example_world\<lparr>trace := [Sock (E_write 5 ''hello'' (Write_ok 3)),
                                  Sock (E_write 5 ''lo'' (Write_fail EAGAIN)),
                                  Sock (E_write 5 ''lo'' (Write_ok 2))]\<rparr>) \<and>
   bytes_written 5 [Sock (E_write 5 ''hello'' (Write_ok 3)),
                    Sock (E_write 5 ''lo'' (Write_fail EAGAIN))]
     @ bytes_written 5 [Sock (E_write 5 ''lo'' (Write_ok 2))] = take 5 ''hello''"
  using relayWrite_resumes_at_reported_offset [of stalling_writer 5 "''hello''" 100 example_world]
  by (simp add: posix_write_def write_progress_def stalling_writer_def example_platform_def
        example_world_def example_channel_def SSLWriteFunction_def SSLWriteFunction_loop.simps
        Let_def)

subsection \<open>The handshake driver\<close>

lemma handshake_trust_extends: "\<exists>new. snd (handshake_trust P ch tr) = tr @ new"
  by (simp add: handshake_trust_def Let_def split: prod.splits)

lemma handshake_heap: "heap (snd (irssi_ssl_handshake P handle w)) = heap w"
  by (simp add: irssi_ssl_handshake_def Let_def split: prod.splits)

text \<open>
  Claim C2. Every call of \<open>irssi_ssl_handshake\<close> first calls \<open>select\<close> with the channel's
  descriptor as the only member of the write set and a zero timeout; every other call it
  makes comes later in the trace. When \<open>select\<close> returns less than 1 no call into the
  crypto engine follows, and when it returns 0 (not writable) the result is 3, which the
  caller reads as InProgress.
\<close>

theorem handshake_probes_descriptor_first:
  "\<exists>ret err rest.
     p_select P (trace w) (fd (heap w handle) + 1) None (Some [fd (heap w handle)]) None (0, 0)
       = (ret, err) \<and>
     trace (snd (irssi_ssl_handshake P handle w))
       = trace w @ Sock (E_select (fd (heap w handle) + 1) None (Some [fd (heap w handle)]) None
                           (0, 0) ret err) # rest \<and>
     heap (snd (irssi_ssl_handshake P handle w)) = heap w \<and>
     (ret < 1 \<longrightarrow> (\<forall>e \<in> set rest. \<not> is_engine_call e)) \<and>
     (ret = 0 \<longrightarrow> fst (irssi_ssl_handshake P handle w) = 3 \<and>
                  handshake_result (fst (irssi_ssl_handshake P handle w)) = InProgress)"
proof -
  let ?ch = "heap w handle"
  obtain ret err where sel:
    "p_select P (trace w) (fd ?ch + 1) None (Some [fd ?ch]) None (0, 0) = (ret, err)"
    by (cases "p_select P (trace w) (fd ?ch + 1) None (Some [fd ?ch]) None (0, 0)")
  let ?ev = "Sock (E_select (fd ?ch + 1) None (Some [fd ?ch]) None (0, 0) ret err)"
  show ?thesis
  proof (cases "ret < 1")
    case True
    with sel have
      "\<exists>rest. trace (snd (irssi_ssl_handshake P handle w)) = trace w @ ?ev # rest \<and>
         (\<forall>e \<in> set rest. \<not> is_engine_call e)"
      "ret = 0 \<longrightarrow> fst (irssi_ssl_handshake P handle w) = 3"
      by (simp_all add: irssi_ssl_handshake_def Let_def)
    with sel True show ?thesis
      by (auto simp: handshake_heap handshake_result_def)
  next
    case False
    obtain new where "snd (handshake_trust P ?ch
        ((trace w @ [?ev]) @ [Ssl (E_SSLHandshake (context' ?ch) noErr)]))
        = ((trace w @ [?ev]) @ [Ssl (E_SSLHandshake (context' ?ch) noErr)]) @ new"
      using handshake_trust_extends by blast
    with sel False have
      "\<exists>rest. trace (snd (irssi_ssl_handshake P handle w)) = trace w @ ?ev # rest"
      by (auto simp: irssi_ssl_handshake_def Let_def split: prod.splits)
    with sel False show ?thesis
      by (auto simp: handshake_heap)
  qed
qed

theorem handshake_probes_descriptor_first_witness:
  "irssi_ssl_handshake not_writable 100 example_world
   = (3, example_world\<lparr>trace := [Sock (E_select 6 None (Some [5]) None (0, 0) 0 (Eother 0)),
                                   Glib (E_g_warning ''select() returned EAGAIN'')]\<rparr>) \<and>
   filter is_engine_call [Glib (E_g_warning ''select() returned EAGAIN'')] = [] \<and>
   handshake_result 3 = InProgress"
  using handshake_probes_descriptor_first [of not_writable example_world 100]
  by (simp add: irssi_ssl_handshake_def Let_def handshake_result_def not_writable_def
        example_platform_def example_world_def
        example_channel_def)

lemma handshake_trust_run:
  assumes cp: "p_SSLCopyPeerTrust P tr (context' ch) = (st, chain)"
    and ev: "p_SecTrustEvaluate P (tr @ [Ssl (E_SSLCopyPeerTrust (context' ch) st chain)]) chain
               = (st2, res)"
    and code: "p_present_trust_panel P
                 (tr @ [Ssl (E_SSLCopyPeerTrust (context' ch) st chain),
                        Sec (E_SecTrustEvaluate chain st2 res)]) chain = code"
  shows "handshake_trust P ch tr =
    (if st \<noteq> noErr then
       (- 1, tr @ [Ssl (E_SSLCopyPeerTrust (context' ch) st chain),
                   Glib (E_g_warning
                     ''SSLCopyPeerTrust failed, unable to verify client cerfiticates. %d'')])
     else if st2 \<noteq> noErr then
       (- 1, tr @ [Ssl (E_SSLCopyPeerTrust (context' ch) st chain),
                   Sec (E_SecTrustEvaluate chain st2 res),
                   Glib (E_g_warning
                     ''SecTrustEvaluate failed, unable to verify client certificates. %d''),
                   Sec (E_CFRelease chain)])
     else if res = kSecTrustResultProceed \<or> res = kSecTrustResultUnspecified then
       (0, tr @ [Ssl (E_SSLCopyPeerTrust (context' ch) st chain),
                 Sec (E_SecTrustEvaluate chain st2 res), Sec (E_CFRelease chain)])
     else
       (if code = 1 then 0 else - 1,
        tr @ [Ssl (E_SSLCopyPeerTrust (context' ch) st chain),
              Sec (E_SecTrustEvaluate chain st2 res),
              Sec (E_present_trust_panel chain code), Sec (E_CFRelease chain)]))"
proof (cases "st = noErr")
  case False
  with cp show ?thesis by (simp add: handshake_trust_def Let_def)
next
  case st: True
  show ?thesis
  proof (cases "st2 = noErr")
    case False
    with cp ev st show ?thesis by (simp add: handshake_trust_def Let_def)
  next
    case True
    with cp ev code st show ?thesis by (simp add: handshake_trust_def Let_def)
  qed
qed

text \<open>
  Claim C1. Take a call of \<open>irssi_ssl_handshake\<close> in which \<open>SSLHandshake\<close> returned \<open>noErr\<close>.
  After the probe and the handshake step it asks for the peer's trust chain with
  \<open>SSLCopyPeerTrust\<close>; if that fails the result is \<open>-1\<close> (Failed). Otherwise it evaluates
  the chain with \<open>SecTrustEvaluate\<close>; if that fails the result is \<open>-1\<close> (Failed). Otherwise,
  when the outcome is \<open>kSecTrustResultProceed\<close> or \<open>kSecTrustResultUnspecified\<close> the trust
  panel is not called and the result is 0 (Established); for every other outcome the
  trust panel is called exactly once, with that chain, and the result is 0 (Established)
  when it answers 1 and \<open>-1\<close> (Failed) when it answers anything else. In each case the
  calls listed are all the calls of the run, apart from a warning and the release of the
  chain.
\<close>

theorem handshake_trust_decision:
  assumes run: "irssi_ssl_handshake P handle w = (r, w')"
    and new: "trace w' = trace w @ new"
    and hs: "Ssl (E_SSLHandshake ctx noErr) \<in> set new"
  shows "\<exists>ret err st chain st2 res code sel cp ev.
     ctx = context' (heap w handle) \<and>
     sel = Sock (E_select (fd (heap w handle) + 1) None (Some [fd (heap w handle)]) None (0, 0)
                   ret err) \<and>
     cp = Ssl (E_SSLCopyPeerTrust ctx st chain) \<and>
     ev = Sec (E_SecTrustEvaluate chain st2 res) \<and>
     p_SSLCopyPeerTrust P (trace w @ [sel, Ssl (E_SSLHandshake ctx noErr)]) ctx = (st, chain) \<and>
     p_SecTrustEvaluate P (trace w @ [sel, Ssl (E_SSLHandshake ctx noErr), cp]) chain
       = (st2, res) \<and>
     p_present_trust_panel P (trace w @ [sel, Ssl (E_SSLHandshake ctx noErr), cp, ev]) chain
       = code \<and>
     (if st \<noteq> noErr then
        new = [sel, Ssl (E_SSLHandshake ctx noErr), cp,
               Glib (E_g_warning
                 ''SSLCopyPeerTrust failed, unable to verify client cerfiticates. %d'')] \<and>
        panel_calls new = [] \<and> r = - 1 \<and> handshake_result r = Failed
      else if st2 \<noteq> noErr then
        new = [sel, Ssl (E_SSLHandshake ctx noErr), cp, ev,
               Glib (E_g_warning
                 ''SecTrustEvaluate failed, unable to verify client certificates. %d''),
               Sec (E_CFRelease chain)] \<and>
        panel_calls new = [] \<and> r = - 1 \<and> handshake_result r = Failed
      else if res = kSecTrustResultProceed \<or> res = kSecTrustResultUnspecified then
        new = [sel, Ssl (E_SSLHandshake ctx noErr), cp, ev, Sec (E_CFRelease chain)] \<and>
        panel_calls new = [] \<and> r = 0 \<and> handshake_result r = Established
      else
        new = [sel, Ssl (E_SSLHandshake ctx noErr), cp, ev,
               Sec (E_present_trust_panel chain code), Sec (E_CFRelease chain)] \<and>
        panel_calls new = [(chain, code)] \<and>
        (code = 1 \<longrightarrow> r = 0 \<and> handshake_result r = Established) \<and>
        (code \<noteq> 1 \<longrightarrow> r = - 1 \<and> handshake_result r = Failed))"
proof -
  let ?ch = "heap w handle"
  obtain ret err where sel:
    "p_select P (trace w) (fd ?ch + 1) None (Some [fd ?ch]) None (0, 0) = (ret, err)"
    by (cases "p_select P (trace w) (fd ?ch + 1) None (Some [fd ?ch]) None (0, 0)")
  let ?sel = "Sock (E_select (fd ?ch + 1) None (Some [fd ?ch]) None (0, 0) ret err)"
  define st0 where "st0 = p_SSLHandshake P (trace w @ [?sel]) (context' ?ch)"
  let ?hs0 = "Ssl (E_SSLHandshake (context' ?ch) st0)"
  have ret: "\<not> ret < 1"
  proof
    assume "ret < 1"
    with run sel new have "new = [?sel, Glib (E_g_warning ''select() returned EAGAIN'')] \<or>
      new = [?sel, Glib (E_g_warning ''select() waiting for socket connect returned %d.'')]"
      by (auto simp: irssi_ssl_handshake_def Let_def split: if_splits)
    with hs show False by auto
  qed
  have st0: "st0 = noErr"
  proof (rule ccontr)
    assume "st0 \<noteq> noErr"
    with run sel new ret have "new = [?sel, ?hs0] \<or>
      new = [?sel, ?hs0, Glib (E_g_warning ''SSLHandshake failed with error %d.'')]"
      by (auto simp: irssi_ssl_handshake_def Let_def st0_def split: if_splits)
    with hs \<open>st0 \<noteq> noErr\<close> show False by auto
  qed
  let ?c = "context' ?ch"
  let ?hs = "Ssl (E_SSLHandshake ?c noErr)"
  let ?tr2 = "trace w @ [?sel, ?hs]"
  obtain st chain where cp: "p_SSLCopyPeerTrust P ?tr2 ?c = (st, chain)"
    by (cases "p_SSLCopyPeerTrust P ?tr2 ?c")
  let ?cp = "Ssl (E_SSLCopyPeerTrust ?c st chain)"
  obtain st2 res where ev: "p_SecTrustEvaluate P (?tr2 @ [?cp]) chain = (st2, res)"
    by (cases "p_SecTrustEvaluate P (?tr2 @ [?cp]) chain")
  let ?ev = "Sec (E_SecTrustEvaluate chain st2 res)"
  define code where "code = p_present_trust_panel P (?tr2 @ [?cp, ?ev]) chain"
  note ht = handshake_trust_run [OF cp ev code_def [symmetric]]
  obtain r' tr3 where ht': "handshake_trust P ?ch ?tr2 = (r', tr3)"
    by (cases "handshake_trust P ?ch ?tr2")
  from run sel ret st0 ht' have r: "r = r'" and w': "trace w' = tr3"
    by (auto simp: irssi_ssl_handshake_def Let_def st0_def)
  have res: "handshake_result 0 = Established" "handshake_result (- 1) = Failed"
    by (simp_all add: handshake_result_def)
  have shape: "if st \<noteq> noErr then
        new = [?sel, ?hs, ?cp,
               Glib (E_g_warning
                 ''SSLCopyPeerTrust failed, unable to verify client cerfiticates. %d'')] \<and>
        panel_calls new = [] \<and> r = - 1 \<and> handshake_result r = Failed
      else if st2 \<noteq> noErr then
        new = [?sel, ?hs, ?cp, ?ev,
               Glib (E_g_warning
                 ''SecTrustEvaluate failed, unable to verify client certificates. %d''),
               Sec (E_CFRelease chain)] \<and>
        panel_calls new = [] \<and> r = - 1 \<and> handshake_result r = Failed
      else if res = kSecTrustResultProceed \<or> res = kSecTrustResultUnspecified then
        new = [?sel, ?hs, ?cp, ?ev, Sec (E_CFRelease chain)] \<and>
        panel_calls new = [] \<and> r = 0 \<and> handshake_result r = Established
      else
        new = [?sel, ?hs, ?cp, ?ev,
               Sec (E_present_trust_panel chain code), Sec (E_CFRelease chain)] \<and>
        panel_calls new = [(chain, code)] \<and>
        (code = 1 \<longrightarrow> r = 0 \<and> handshake_result r = Established) \<and>
        (code \<noteq> 1 \<longrightarrow> r = - 1 \<and> handshake_result r = Failed)"
  proof (cases "st \<noteq> noErr")
    case True
    with ht ht' r w' new res show ?thesis by simp
  next
    case a: False
    show ?thesis
    proof (cases "st2 \<noteq> noErr")
      case True
      with a ht ht' r w' new res show ?thesis by simp
    next
      case b: False
      show ?thesis
      proof (cases "res = kSecTrustResultProceed \<or> res = kSecTrustResultUnspecified")
        case True
        with a b ht ht' r w' new res show ?thesis by simp
      next
        case False
        with a b ht ht' r w' new res show ?thesis by simp
      qed
    qed
  qed
  have ctx: "ctx = ?c"
    using hs shape by (auto split: if_splits)
  show ?thesis
    apply (rule exI [of _ ret], rule exI [of _ err], rule exI [of _ st], rule exI [of _ chain],
           rule exI [of _ st2], rule exI [of _ res], rule exI [of _ code],
           rule exI [of _ ?sel], rule exI [of _ "Ssl (E_SSLCopyPeerTrust ctx st chain)"],
           rule exI [of _ ?ev])
    using cp ev code_def shape unfolding ctx by simp
qed

theorem handshake_trust_decision_witness:
  "irssi_ssl_handshake rejected_peer 100 example_world
   = (- 1, example_world\<lparr>trace :=
        [Sock (E_select 6 None (Some [5]) None (0, 0) 1 (Eother 0)),
         Ssl (E_SSLHandshake 200 noErr),
         Ssl (E_SSLCopyPeerTrust 200 noErr 300),
         Sec (E_SecTrustEvaluate 300 noErr kSecTrustResultDeny),
         Sec (E_present_trust_panel 300 0),
         Sec (E_CFRelease 300)]\<rparr>) \<and>
   panel_calls
        [Sock (E_select 6 None (Some [5]) None (0, 0) 1 (Eother 0)),
         Ssl (E_SSLHandshake 200 noErr),
         Ssl (E_SSLCopyPeerTrust 200 noErr 300),
         Sec (E_SecTrustEvaluate 300 noErr kSecTrustResultDeny),
         Sec (E_present_trust_panel 300 0),
         Sec (E_CFRelease 300)] = [(300, 0)] \<and>
   handshake_result (- 1) = Failed"
  using handshake_trust_decision
    [where P = rejected_peer and handle = 100 and w = example_world and r = "- 1"
       and w' = "example_world\<lparr>trace :=
        [Sock (E_select 6 None (Some [5]) None (0, 0) 1 (Eother 0)),
         Ssl (E_SSLHandshake 200 noErr),
         Ssl (E_SSLCopyPeerTrust 200 noErr 300),
         Sec (E_SecTrustEvaluate 300 noErr kSecTrustResultDeny),
         Sec (E_present_trust_panel 300 0),
         Sec (E_CFRelease 300)]\<rparr>"
       and new = "[Sock (E_select 6 None (Some [5]) None (0, 0) 1 (Eother 0)),
         Ssl (E_SSLHandshake 200 noErr),
         Ssl (E_SSLCopyPeerTrust 200 noErr 300),
         Sec (E_SecTrustEvaluate 300 noErr kSecTrustResultDeny),
         Sec (E_present_trust_panel 300 0),
         Sec (E_CFRelease 300)]" and ctx = 200]
  by (simp add: irssi_ssl_handshake_def handshake_trust_def Let_def handshake_result_def
        rejected_peer_def example_platform_def example_world_def example_channel_def)

subsection \<open>The channel operations\<close>

text \<open>
  Claim C6. \<open>irssi_ssl_read\<close> calls \<open>SSLRead\<close> once. When the engine's status is \<open>noErr\<close> it
  returns the processed count with \<open>G_IO_STATUS_NORMAL\<close>; otherwise it returns 0 bytes, with
  \<open>G_IO_STATUS_AGAIN\<close> for \<open>errSSLWouldBlock\<close>, \<open>G_IO_STATUS_EOF\<close> for
  \<open>errSSLClosedGraceful\<close> and \<open>G_IO_STATUS_ERROR\<close> for every other status.
  \<open>irssi_ssl_write\<close> calls \<open>SSLWrite\<close> once and maps the status the same way, except that
  every status other than \<open>noErr\<close> and \<open>errSSLWouldBlock\<close>, \<open>errSSLClosedGraceful\<close> among
  them, gives \<open>G_IO_STATUS_ERROR\<close>: it never returns \<open>G_IO_STATUS_EOF\<close>.
\<close>

theorem read_write_status_mapping:
  "(\<forall>status processed.
      p_SSLRead P (trace w) (context' (heap w handle)) len = (status, processed) \<longrightarrow>
      snd (irssi_ssl_read P handle len w)
        = w\<lparr>trace := trace w @ [Ssl (E_SSLRead (context' (heap w handle)) len status
                                      processed)]\<rparr> \<and>
      (status = noErr \<longrightarrow>
         fst (irssi_ssl_read P handle len w) = (G_IO_STATUS_NORMAL, processed)) \<and>
      (status = errSSLWouldBlock \<longrightarrow>
         fst (irssi_ssl_read P handle len w) = (G_IO_STATUS_AGAIN, 0)) \<and>
      (status = errSSLClosedGraceful \<longrightarrow>
         fst (irssi_ssl_read P handle len w) = (G_IO_STATUS_EOF, 0)) \<and>
      (status \<noteq> noErr \<and> status \<noteq> errSSLWouldBlock \<and> status \<noteq> errSSLClosedGraceful \<longrightarrow>
         fst (irssi_ssl_read P handle len w) = (G_IO_STATUS_ERROR, 0))) \<and>
   (\<forall>status processed.
      p_SSLWrite P (trace w) (context' (heap w handle)) (take len buf) = (status, processed) \<longrightarrow>
      snd (irssi_ssl_write P handle buf len w)
        = w\<lparr>trace := trace w @ [Ssl (E_SSLWrite (context' (heap w handle)) (take len buf) status
                                      processed)]\<rparr> \<and>
      (status = noErr \<longrightarrow>
         fst (irssi_ssl_write P handle buf len w) = (G_IO_STATUS_NORMAL, processed)) \<and>
      (status = errSSLWouldBlock \<longrightarrow>
         fst (irssi_ssl_write P handle buf len w) = (G_IO_STATUS_AGAIN, 0)) \<and>
      (status \<noteq> noErr \<and> status \<noteq> errSSLWouldBlock \<longrightarrow>
         fst (irssi_ssl_write P handle buf len w) = (G_IO_STATUS_ERROR, 0)) \<and>
      fst (fst (irssi_ssl_write P handle buf len w)) \<noteq> G_IO_STATUS_EOF)"
  by (simp add: irssi_ssl_read_def irssi_ssl_write_def Let_def)

theorem read_write_status_mapping_witness:
  "p_SSLRead refusing_engine (trace example_world) (context' (heap example_world 100)) 2
     = (errSSLWouldBlock, 7) \<and>
   fst (irssi_ssl_read refusing_engine 100 2 example_world) = (G_IO_STATUS_AGAIN, 0) \<and>
   p_SSLWrite refusing_engine (trace example_world) (context' (heap example_world 100))
       (take 2 ''hi'') = (errSSLClosedGraceful, 0) \<and>
   fst (irssi_ssl_write refusing_engine 100 ''hi'' 2 example_world) = (G_IO_STATUS_ERROR, 0)"
  using read_write_status_mapping [where P = refusing_engine and w = example_world
      and handle = 100 and len = 2 and buf = "''hi''"]
  by (simp add: refusing_engine_def example_platform_def)

text \<open>
  Claim C9, as stated, says that a pass-through operation gives what the raw channel's
  operation gives when invoked on the raw channel itself. It fails for the readiness
  watch: on a platform whose raw functions work on the descriptor found at the channel
  pointer, the watch created through the channel object at 100 records the channel 100,
  and the watch that the raw channel 50 creates on itself records 50.
\<close>

theorem passthrough_on_raw_channel_counterexample:
  "fst (irssi_ssl_create_watch descriptor_platform 100 1 example_world)
     \<noteq> fst (raw_channel_create_watch descriptor_platform (giochan (heap example_world 100)) 1
              example_world)"
  by (simp add: irssi_ssl_create_watch_def raw_channel_create_watch_def Let_def
        descriptor_platform_def descriptor_funcs_def example_platform_def example_world_def
        example_channel_def)

lemma descriptor_funcs_reads_descriptor_only:
  "reads_descriptor_only example_descriptor descriptor_funcs"
  by (simp add: reads_descriptor_only_def descriptor_funcs_def)

text \<open>
  Claim C9, amended. \<open>seek\<close>, \<open>get_flags\<close>, \<open>set_flags\<close> and \<open>create_watch\<close> each call the
  entry of the wrapped raw channel's function table once, with the channel's own handle
  as the channel and the other arguments unchanged, and return what that call returns.
  For \<open>seek\<close>, \<open>get_flags\<close> and \<open>set_flags\<close> this is exactly the result that the raw
  channel's operation gives on the raw channel itself, whenever the raw functions read
  the descriptor only and the descriptor found at the handle, the member \<open>fd\<close> of the
  channel object, is the raw channel's descriptor. The watch is the one that the raw
  table creates for the handle, not for the raw channel.
\<close>

theorem passthrough_on_own_handle:
  "irssi_ssl_seek P handle offset type w
     = (io_seek (p_funcs P (giochan (heap w handle))) (trace w) handle offset type,
        w\<lparr>trace := trace w @ [Glib (E_io_seek handle offset type
             (io_seek (p_funcs P (giochan (heap w handle))) (trace w) handle offset type))]\<rparr>) \<and>
   irssi_ssl_get_flags P handle w
     = (io_get_flags (p_funcs P (giochan (heap w handle))) (trace w) handle,
        w\<lparr>trace := trace w @ [Glib (E_io_get_flags handle
             (io_get_flags (p_funcs P (giochan (heap w handle))) (trace w) handle))]\<rparr>) \<and>
   irssi_ssl_set_flags P handle flags w
     = (io_set_flags (p_funcs P (giochan (heap w handle))) (trace w) handle flags,
        w\<lparr>trace := trace w @ [Glib (E_io_set_flags handle flags
             (io_set_flags (p_funcs P (giochan (heap w handle))) (trace w) handle flags))]\<rparr>) \<and>
   irssi_ssl_create_watch P handle cond w
     = (io_create_watch (p_funcs P (giochan (heap w handle))) (trace w) handle cond,
        w\<lparr>trace := trace w @ [Glib (E_io_create_watch handle cond
             (io_create_watch (p_funcs P (giochan (heap w handle))) (trace w) handle cond))]\<rparr>) \<and>
   (\<forall>D. reads_descriptor_only D (p_funcs P (giochan (heap w handle))) \<and>
        D handle = fd (heap w handle) \<and> D (giochan (heap w handle)) = fd (heap w handle) \<longrightarrow>
      fst (irssi_ssl_seek P handle offset type w)
        = fst (raw_channel_seek P (giochan (heap w handle)) offset type w) \<and>
      fst (irssi_ssl_get_flags P handle w)
        = fst (raw_channel_get_flags P (giochan (heap w handle)) w) \<and>
      fst (irssi_ssl_set_flags P handle flags w)
        = fst (raw_channel_set_flags P (giochan (heap w handle)) flags w))"
proof -
  have agree: "io_seek F tr h = io_seek F tr g \<and> io_get_flags F tr h = io_get_flags F tr g \<and>
      io_set_flags F tr h = io_set_flags F tr g"
    if "reads_descriptor_only D F" "D h = D g" for D F tr h g
    using that unfolding reads_descriptor_only_def by blast
  have eq: "fst (irssi_ssl_seek P handle offset type w)
        = fst (raw_channel_seek P (giochan (heap w handle)) offset type w) \<and>
      fst (irssi_ssl_get_flags P handle w)
        = fst (raw_channel_get_flags P (giochan (heap w handle)) w) \<and>
      fst (irssi_ssl_set_flags P handle flags w)
        = fst (raw_channel_set_flags P (giochan (heap w handle)) flags w)"
    if "reads_descriptor_only D (p_funcs P (giochan (heap w handle)))"
      "D handle = fd (heap w handle)" "D (giochan (heap w handle)) = fd (heap w handle)" for D
    using agree [OF that(1), of handle "giochan (heap w handle)" "trace w"] that(2,3)
    by (simp add: irssi_ssl_seek_def irssi_ssl_get_flags_def irssi_ssl_set_flags_def
          raw_channel_seek_def raw_channel_get_flags_def raw_channel_set_flags_def Let_def)
  have calls: "irssi_ssl_seek P handle offset type w
     = (io_seek (p_funcs P (giochan (heap w handle))) (trace w) handle offset type,
        w\<lparr>trace := trace w @ [Glib (E_io_seek handle offset type
             (io_seek (p_funcs P (giochan (heap w handle))) (trace w) handle offset type))]\<rparr>)"
    "irssi_ssl_get_flags P handle w
     = (io_get_flags (p_funcs P (giochan (heap w handle))) (trace w) handle,
        w\<lparr>trace := trace w @ [Glib (E_io_get_flags handle
             (io_get_flags (p_funcs P (giochan (heap w handle))) (trace w) handle))]\<rparr>)"
    "irssi_ssl_set_flags P handle flags w
     = (io_set_flags (p_funcs P (giochan (heap w handle))) (trace w) handle flags,
        w\<lparr>trace := trace w @ [Glib (E_io_set_flags handle flags
             (io_set_flags (p_funcs P (giochan (heap w handle))) (trace w) handle flags))]\<rparr>)"
    "irssi_ssl_create_watch P handle cond w
     = (io_create_watch (p_funcs P (giochan (heap w handle))) (trace w) handle cond,
        w\<lparr>trace := trace w @ [Glib (E_io_create_watch handle cond
             (io_create_watch (p_funcs P (giochan (heap w handle))) (trace w) handle cond))]\<rparr>)"
    by (simp_all add: irssi_ssl_seek_def irssi_ssl_get_flags_def irssi_ssl_set_flags_def
          irssi_ssl_create_watch_def Let_def)
  from eq show ?thesis
    by (intro conjI calls allI impI) blast+
qed

theorem passthrough_on_own_handle_witness:
  "reads_descriptor_only example_descriptor
      (p_funcs descriptor_platform (giochan (heap example_world 100))) \<and>
   example_descriptor 100 = fd (heap example_world 100) \<and>
   example_descriptor (giochan (heap example_world 100)) = fd (heap example_world 100) \<and>
   fst (irssi_ssl_seek descriptor_platform 100 0 G_SEEK_SET example_world)
     = fst (raw_channel_seek descriptor_platform (giochan (heap example_world 100)) 0 G_SEEK_SET
              example_world) \<and>
   fst (irssi_ssl_get_flags descriptor_platform 100 example_world) = 2 \<and>
   fst (raw_channel_get_flags descriptor_platform (giochan (heap example_world 100))
          example_world) = 2 \<and>
   fst (irssi_ssl_set_flags descriptor_platform 100 0 example_world)
     = fst (raw_channel_set_flags descriptor_platform (giochan (heap example_world 100)) 0
              example_world) \<and>
   watch_channel (fst (irssi_ssl_create_watch descriptor_platform 100 1 example_world)) = 100"
  using passthrough_on_own_handle
    [where P = descriptor_platform and handle = 100
       and w = example_world and cond = 1 and offset = 0 and type = G_SEEK_SET and flags = 0]
    descriptor_funcs_reads_descriptor_only
  by (simp add: descriptor_platform_def descriptor_funcs_def example_descriptor_def
        example_platform_def example_world_def example_channel_def
        irssi_ssl_seek_def irssi_ssl_get_flags_def irssi_ssl_set_flags_def
        irssi_ssl_create_watch_def raw_channel_seek_def raw_channel_get_flags_def
        raw_channel_set_flags_def Let_def)

subsection \<open>Construction and destruction\<close>

text \<open>
  Claim C10. The private-key argument of \<open>CreateIdentityFromCommonName\<close>, and the
  arguments \<open>mypkey\<close>, \<open>cafile\<close> and \<open>capath\<close> of \<open>irssi_ssl_get_iochannel\<close> and
  \<open>net_connect_ip_ssl\<close>, have no influence: two runs that differ in them only give the same
  result and the same world, and so does every sequence of channel operations that
  follows.
\<close>

theorem unused_configuration_has_no_effect:
  "CreateIdentityFromCommonName P certificate privateKey tr
     = CreateIdentityFromCommonName P certificate privateKey' tr \<and>
   irssi_ssl_get_iochannel P handle hostname' mycert mypkey cafile capath verify' w
     = irssi_ssl_get_iochannel P handle hostname' mycert mypkey' cafile' capath' verify' w \<and>
   net_connect_ip_ssl P ip port hostname' my_ip mycert mypkey cafile capath verify' w
     = net_connect_ip_ssl P ip port hostname' my_ip mycert mypkey' cafile' capath' verify' w \<and>
   session P ip port hostname' my_ip mycert mypkey cafile capath verify' ops w
     = session P ip port hostname' my_ip mycert mypkey' cafile' capath' verify' ops w"
proof -
  have 1: "CreateIdentityFromCommonName P c k t = CreateIdentityFromCommonName P c k' t"
    for c k k' t
    by (simp add: CreateIdentityFromCommonName_def)
  have 2: "get_iochannel_identity P x c k t = get_iochannel_identity P x c k' t" for x c k k' t
    by (simp add: get_iochannel_identity_def 1 [of c k t k'])
  have 3: "irssi_ssl_get_iochannel P h hn mc k cf cp v u
             = irssi_ssl_get_iochannel P h hn mc k' cf' cp' v u" for h hn mc k k' cf cf' cp cp' v u
    unfolding irssi_ssl_get_iochannel_def 2 [of _ _ k _ k'] by (rule refl)
  have 4: "net_connect_ip_ssl P ip port hostname' my_ip mycert mypkey cafile capath verify' w
     = net_connect_ip_ssl P ip port hostname' my_ip mycert mypkey' cafile' capath' verify' w"
    unfolding net_connect_ip_ssl_def
      3 [of _ _ _ mypkey cafile capath _ _ mypkey' cafile' capath'] by (rule refl)
  show ?thesis
    unfolding session_def 4 by (intro conjI 1 3 refl)
qed

lemma grows_refl: "grows_by_keychain_calls tr tr"
  by (simp add: grows_by_keychain_calls_def)

lemma grows_step:
  "grows_by_keychain_calls (tr @ xs) tr' \<Longrightarrow> list_all is_keychain_call xs
    \<Longrightarrow> grows_by_keychain_calls tr tr'"
  by (auto simp: grows_by_keychain_calls_def)

lemma grows_app: "list_all is_keychain_call xs \<Longrightarrow> grows_by_keychain_calls tr (tr @ xs)"
  by (simp add: grows_by_keychain_calls_def)

lemma identity_search_loop_events:
  assumes "identity_search_loop P s cn tr = Some r"
  shows "grows_by_keychain_calls tr (snd (snd r))"
proof -
  have "(\<lambda>(((P, s), cn), tr) r. grows_by_keychain_calls tr (snd (snd r))) (((P, s), cn), tr) r"
  proof (rule identity_search_loop.raw_induct [OF _ assms], goal_cases)
    case (1 f P s cn tr r)
    have ih: "f P s cn (tr @ xs) = Some r \<Longrightarrow> list_all is_keychain_call xs
        \<Longrightarrow> grows_by_keychain_calls tr (snd (snd r))" for xs
      using 1(1) [of P s cn "tr @ xs" r] by (auto intro: grows_step)
    obtain status identityRef where a: "p_SecIdentitySearchCopyNext P tr s = (status, identityRef)"
      by (cases "p_SecIdentitySearchCopyNext P tr s")
    let ?e1 = "Sec (E_SecIdentitySearchCopyNext s status identityRef)"
    obtain sub1 certificateRef where
      b: "p_SecIdentityCopyCertificate P (tr @ [?e1]) identityRef = (sub1, certificateRef)"
      by (cases "p_SecIdentityCopyCertificate P (tr @ [?e1]) identityRef")
    let ?e2 = "Sec (E_SecIdentityCopyCertificate identityRef sub1 certificateRef)"
    obtain sub2 commonNameRef where
      c: "p_SecCertificateCopyCommonName P (tr @ [?e1, ?e2]) certificateRef = (sub2, commonNameRef)"
      by (cases "p_SecCertificateCopyCommonName P (tr @ [?e1, ?e2]) certificateRef")
    let ?e3 = "Sec (E_SecCertificateCopyCommonName certificateRef sub2 commonNameRef)"
    define eq where "eq = p_CFStringCompare P (tr @ [?e1, ?e2, ?e3]) commonNameRef cn"
    let ?e4 = "Sec (E_CFStringCompare commonNameRef cn eq)"
    show ?case
    proof (cases "status = noErr")
      case False
      with 1(2) a have "snd (snd r) = tr @ [?e1]" by auto
      then show ?thesis by (simp add: grows_app)
    next
      case s: True
      show ?thesis
      proof (cases "sub1 = noErr")
        case False
        with 1(2) a b s have "f P s cn (tr @ [?e1, ?e2]) = Some r" by (simp add: Let_def)
        then show ?thesis by (simp add: ih)
      next
        case s1: True
        show ?thesis
        proof (cases "sub2 = noErr")
          case False
          with 1(2) a b c s s1
          have "f P s cn (tr @ [?e1, ?e2, ?e3, Sec (E_CFRelease certificateRef)]) = Some r"
            by (simp add: Let_def)
          then show ?thesis by (simp add: ih)
        next
          case s2: True
          show ?thesis
          proof (cases eq)
            case True
            with 1(2) a b c s s1 s2 have "snd (snd r) = tr @ [?e1, ?e2, ?e3, ?e4,
                Sec (E_CFRelease commonNameRef), Sec (E_CFRelease certificateRef)]"
              by (auto simp: Let_def eq_def)
            then show ?thesis by (simp add: grows_app)
          next
            case False
            with 1(2) a b c s s1 s2 have "f P s cn (tr @ [?e1, ?e2, ?e3, ?e4,
                Sec (E_CFRelease commonNameRef), Sec (E_CFRelease certificateRef),
                Sec (E_CFRelease identityRef)]) = Some r"
              by (simp add: Let_def eq_def)
            then show ?thesis by (simp add: ih)
          qed
        qed
      qed
    qed
  qed
  then show ?thesis by simp
qed

lemma CreateIdentityFromCommonName_events:
  assumes "CreateIdentityFromCommonName P cert pkey tr = Some (identity, tr')"
  shows "grows_by_keychain_calls tr tr'"
proof -
  obtain status search where a: "p_SecIdentitySearchCreate P tr = (status, search)"
    by (cases "p_SecIdentitySearchCreate P tr")
  let ?e1 = "Sec (E_SecIdentitySearchCreate status search)"
  show ?thesis
  proof (cases "status = noErr")
    case False
    with assms a have "tr' = tr @ [?e1, Glib (E_g_warning
             ''Unable to create search for keychain identity matching %s'')]"
      by (auto simp: CreateIdentityFromCommonName_def)
    then show ?thesis by (simp add: grows_app)
  next
    case True
    define cn where "cn = p_CFStringCreateWithCString P (tr @ [?e1]) cert"
    let ?tr2 = "tr @ [?e1, Sec (E_CFStringCreateWithCString cert cn)]"
    from assms a True obtain r where
      loop: "identity_search_loop P search cn ?tr2 = Some r"
      by (auto simp: CreateIdentityFromCommonName_def Let_def cn_def split: option.splits)
    from identity_search_loop_events [OF loop]
    obtain new where new: "snd (snd r) = ?tr2 @ new" "list_all is_keychain_call new"
      by (auto simp: grows_by_keychain_calls_def)
    from assms a True loop new(1)
    have "\<exists>xs. tr' = (?tr2 @ new) @ xs \<and> list_all is_keychain_call xs"
      by (cases r) (auto simp: CreateIdentityFromCommonName_def Let_def cn_def split: if_splits)
    then obtain xs where "tr' = tr @ ([?e1, Sec (E_CFStringCreateWithCString cert cn)] @ new @ xs)"
      "list_all is_keychain_call xs" by auto
    with new(2) show ?thesis
      unfolding grows_by_keychain_calls_def
      by (intro exI [of _ "[?e1, Sec (E_CFStringCreateWithCString cert cn)] @ new @ xs"]) simp
  qed
qed

lemma keychain_call_quiet:
  "list_all is_keychain_call xs \<Longrightarrow> filter is_raw_io xs = [] \<and> releases xs = []"
proof (induction xs)
  case Nil
  then show ?case by (simp add: releases_def)
next
  case (Cons e es)
  then show ?case
    by (cases e rule: is_keychain_call.cases) (simp_all add: releases_def)
qed

lemma keychain_call_not_ssl: "list_all is_keychain_call xs \<Longrightarrow> Ssl e \<notin> set xs"
  by (induction xs) auto

text \<open>
  Claim C7. When \<open>irssi_ssl_get_iochannel\<close> is called with a certificate name that the
  identity lookup does not resolve, it returns, it creates no channel object, and it makes
  no call on the raw descriptor. It returns \<open>NULL\<close> or ends in \<open>g_error\<close>; and when the
  context had been created and its callbacks bound, it returns \<open>NULL\<close> after warning that
  no identity could be created, and the last call it makes disposes that context, which
  is the only release in the run.
\<close>

theorem open_fails_on_unknown_certificate:
  assumes "lookup_fails P cert"
  shows "\<exists>res w' new.
     irssi_ssl_get_iochannel P handle hostname' (Some cert) mypkey cafile capath verify' w
       = Some (res, w') \<and>
     trace w' = trace w @ new \<and> heap w' = heap w \<and> filter is_raw_io new = [] \<and>
     (res = Aborted \<or> res = Returned NULL) \<and>
     (\<forall>ctx. Ssl (E_SSLSetIOFuncs ctx noErr) \<in> set new \<longrightarrow>
        res = Returned NULL \<and> Ssl (E_SSLNewContext False noErr ctx) \<in> set new \<and>
        releases new = [Ssl (E_SSLDisposeContext ctx)] \<and>
        (\<exists>pre. new = pre @ [Glib (E_g_warning
                   ''Failed to create an identity out of supplied certificates.''),
                 Ssl (E_SSLDisposeContext ctx)]))"
proof -
  define fd0 where "fd0 = p_g_io_channel_unix_get_fd P (trace w) handle"
  let ?e1 = "Glib (E_g_io_channel_unix_get_fd handle fd0)"
  obtain st1 ctx where nc: "p_SSLNewContext P (trace w @ [?e1]) False = (st1, ctx)"
    by (cases "p_SSLNewContext P (trace w @ [?e1]) False")
  let ?e2 = "Ssl (E_SSLNewContext False st1 ctx)"
  define st2 where "st2 = p_SSLSetIOFuncs P (trace w @ [?e1, ?e2]) ctx"
  let ?e3 = "Ssl (E_SSLSetIOFuncs ctx st2)"
  let ?sets = "[Ssl (E_SSLSetProtocolVersionEnabled ctx kSSLProtocol2 False),
                Ssl (E_SSLSetEnableCertVerify ctx verify'),
                Ssl (E_SSLSetAllowsAnyRoot ctx True)]"
  let ?run = "irssi_ssl_get_iochannel P handle hostname' (Some cert) mypkey cafile capath
                verify' w"
  have fin: ?thesis
    if "?run = Some (res, w\<lparr>trace := trace w @ new\<rparr>)" "filter is_raw_io new = []"
      "res = Aborted \<or> res = Returned NULL"
      "\<forall>ctx. Ssl (E_SSLSetIOFuncs ctx noErr) \<in> set new \<longrightarrow>
        res = Returned NULL \<and> Ssl (E_SSLNewContext False noErr ctx) \<in> set new \<and>
        releases new = [Ssl (E_SSLDisposeContext ctx)] \<and>
        (\<exists>pre. new = pre @ [Glib (E_g_warning
                   ''Failed to create an identity out of supplied certificates.''),
                 Ssl (E_SSLDisposeContext ctx)])" for res new
    using that
    by (intro exI [of _ res] exI [of _ "w\<lparr>trace := trace w @ new\<rparr>"] exI [of _ new]) simp
  show ?thesis
  proof (cases "fd0 = 0")
    case True
    then have "?run = Some (Returned NULL, w\<lparr>trace := trace w @ [?e1]\<rparr>)"
      by (simp add: irssi_ssl_get_iochannel_def Let_def fd0_def)
    then show ?thesis by (rule fin) simp_all
  next
    case fd: False
    show ?thesis
    proof (cases "st1 = noErr")
      case False
      with fd nc have "?run = Some (Aborted, w\<lparr>trace := trace w @ [?e1, ?e2,
          Glib (E_g_error ''Failed to create new SSLContextRef, %d.'')]\<rparr>)"
        by (simp add: irssi_ssl_get_iochannel_def Let_def fd0_def)
      then show ?thesis by (rule fin) simp_all
    next
      case s1: True
      show ?thesis
      proof (cases "st2 = noErr")
        case False
        with fd nc s1 have "?run = Some (Aborted, w\<lparr>trace := trace w @ [?e1, ?e2, ?e3,
            Glib (E_g_error ''Failed to set IOFuncs, %d.'')]\<rparr>)"
          by (simp add: irssi_ssl_get_iochannel_def Let_def fd0_def st2_def)
        then show ?thesis by (rule fin) (use False in simp_all)
      next
        case s2: True
        let ?tr4 = "trace w @ [?e1, ?e2, ?e3] @ ?sets"
        let ?tail = "[Glib (E_g_warning
                        ''Failed to create an identity out of supplied certificates.''),
                      Ssl (E_SSLDisposeContext ctx)]"
        from assms obtain tr5 where
          lk: "CreateIdentityFromCommonName P cert mypkey ?tr4 = Some (NULL, tr5)"
          unfolding lookup_fails_def by blast
        from CreateIdentityFromCommonName_events [OF lk]
        obtain kc where kc: "tr5 = ?tr4 @ kc" "list_all is_keychain_call kc"
          by (auto simp: grows_by_keychain_calls_def)
        from lk have "get_iochannel_identity P ctx cert mypkey ?tr4 = Some (False, tr5 @ ?tail)"
          by (simp add: get_iochannel_identity_def)
        with fd nc s1 s2 kc(1)
        have run: "?run = Some (Returned NULL,
                     w\<lparr>trace := trace w @ ([?e1, ?e2, ?e3] @ ?sets @ kc @ ?tail)\<rparr>)"
          by (simp add: irssi_ssl_get_iochannel_def Let_def fd0_def st2_def)
        from kc(2) have q: "filter is_raw_io kc = []" "releases kc = []"
          "\<And>e. Ssl e \<notin> set kc"
          using keychain_call_quiet keychain_call_not_ssl by blast+
        let ?new = "[?e1, ?e2, ?e3] @ ?sets @ kc @ ?tail"
        have a: "filter is_raw_io ?new = []" using q(1) by simp
        have b: "releases ?new = [Ssl (E_SSLDisposeContext ctx)]"
          using q(2) by (simp add: releases_def)
        have c: "Ssl (E_SSLSetIOFuncs ctx' noErr) \<in> set ?new \<Longrightarrow> ctx' = ctx" for ctx'
          using q(3) by auto
        have d: "Ssl (E_SSLNewContext False noErr ctx) \<in> set ?new" using s1 by simp
        have e: "\<exists>pre. ?new = pre @ ?tail"
          by (intro exI [of _ "[?e1, ?e2, ?e3] @ ?sets @ kc"]) simp
        show ?thesis
        proof (rule fin [OF run a])
          show "\<forall>ctx'. Ssl (E_SSLSetIOFuncs ctx' noErr) \<in> set ?new \<longrightarrow>
            Returned NULL = Returned NULL \<and> Ssl (E_SSLNewContext False noErr ctx') \<in> set ?new \<and>
            releases ?new = [Ssl (E_SSLDisposeContext ctx')] \<and>
            (\<exists>pre. ?new = pre @ [Glib (E_g_warning
                   ''Failed to create an identity out of supplied certificates.''),
                 Ssl (E_SSLDisposeContext ctx')])"
          proof (intro allI impI)
            fix ctx'
            assume "Ssl (E_SSLSetIOFuncs ctx' noErr) \<in> set ?new"
            then have "ctx' = ctx" by (rule c)
            with b d e show "Returned NULL = Returned NULL \<and>
              Ssl (E_SSLNewContext False noErr ctx') \<in> set ?new \<and>
              releases ?new = [Ssl (E_SSLDisposeContext ctx')] \<and>
              (\<exists>pre. ?new = pre @ [Glib (E_g_warning
                   ''Failed to create an identity out of supplied certificates.''),
                 Ssl (E_SSLDisposeContext ctx')])"
              by (simp only: simp_thms)
          qed
        qed simp
      qed
    qed
  qed
qed

theorem open_fails_on_unknown_certificate_witness:
  "lookup_fails example_platform ''alice'' \<and>
   irssi_ssl_get_iochannel example_platform 50 None (Some ''alice'') None None None False
       example_world
     = Some (Returned NULL, example_world\<lparr>trace :=
         [Glib (E_g_io_channel_unix_get_fd 50 5),
          Ssl (E_SSLNewContext False noErr 200),
          Ssl (E_SSLSetIOFuncs 200 noErr),
          Ssl (E_SSLSetProtocolVersionEnabled 200 kSSLProtocol2 False),
          Ssl (E_SSLSetEnableCertVerify 200 False),
          Ssl (E_SSLSetAllowsAnyRoot 200 True),
          Sec (E_SecIdentitySearchCreate noErr 400),
          Sec (E_CFStringCreateWithCString ''alice'' 700),
          Sec (E_SecIdentitySearchCopyNext 400 (errOther 25300) NULL),
          Sec (E_CFRelease 700),
          Sec (E_CFRelease 400),
          Glib (E_g_warning ''Unable to find keychain identity with common name %s.''),
          Glib (E_g_warning ''Failed to create an identity out of supplied certificates.''),
          Ssl (E_SSLDisposeContext 200)]\<rparr>)"
  using open_fails_on_unknown_certificate [where P = example_platform and cert = "''alice''"
      and handle = 50 and hostname' = None and mypkey = None and cafile = None and capath = None
      and verify' = False and w = example_world]
  by (simp add: lookup_fails_def irssi_ssl_get_iochannel_def get_iochannel_identity_def
        CreateIdentityFromCommonName_def identity_search_loop.simps Let_def
        example_platform_def example_world_def)

lemma releases_append: "releases (xs @ ys) = releases xs @ releases ys"
  by (simp add: releases_def)

lemma handshake_trust_no_release:
  "\<exists>new. snd (handshake_trust P ch tr) = tr @ new \<and> releases new = []"
  by (simp add: handshake_trust_def Let_def releases_def split: prod.splits)

lemma handshake_no_release:
  "\<exists>new. trace (snd (irssi_ssl_handshake P h w)) = trace w @ new \<and> releases new = []"
proof -
  let ?ch = "heap w h"
  obtain ret err where sel:
    "p_select P (trace w) (fd ?ch + 1) None (Some [fd ?ch]) None (0, 0) = (ret, err)"
    by (cases "p_select P (trace w) (fd ?ch + 1) None (Some [fd ?ch]) None (0, 0)")
  let ?ev = "Sock (E_select (fd ?ch + 1) None (Some [fd ?ch]) None (0, 0) ret err)"
  let ?tr2 = "trace w @ [?ev, Ssl (E_SSLHandshake (context' ?ch) noErr)]"
  obtain new where new: "snd (handshake_trust P ?ch ?tr2) = ?tr2 @ new" "releases new = []"
    using handshake_trust_no_release by blast
  show ?thesis
  proof (cases "\<not> ret < 1 \<and> p_SSLHandshake P (trace w @ [?ev]) (context' ?ch) = noErr")
    case True
    with sel new(1) have "trace (snd (irssi_ssl_handshake P h w))
        = trace w @ ([?ev, Ssl (E_SSLHandshake (context' ?ch) noErr)] @ new)"
      by (auto simp: irssi_ssl_handshake_def Let_def split: prod.splits)
    moreover have "releases ([?ev, Ssl (E_SSLHandshake (context' ?ch) noErr)] @ new) = []"
      using new(2) by (simp add: releases_def)
    ultimately show ?thesis by blast
  next
    case False
    with sel show ?thesis
      by (auto simp: irssi_ssl_handshake_def Let_def releases_def)
  qed
qed

lemma do_op_no_release:
  "\<exists>new. trace (snd (do_op P h x w)) = trace w @ new \<and> releases new = []"
proof (cases x)
  case Op_handshake
  with handshake_no_release [of P h w] show ?thesis by (simp add: split_def Let_def)
qed (simp_all add: irssi_ssl_read_def irssi_ssl_write_def irssi_ssl_seek_def
       irssi_ssl_close_def irssi_ssl_create_watch_def irssi_ssl_set_flags_def
       irssi_ssl_get_flags_def Let_def split_def releases_def)

lemma do_op_heap: "heap (snd (do_op P h x w)) = heap w"
  by (cases x)
     (simp_all add: handshake_heap irssi_ssl_read_def irssi_ssl_write_def irssi_ssl_seek_def
       irssi_ssl_close_def irssi_ssl_create_watch_def irssi_ssl_set_flags_def
       irssi_ssl_get_flags_def Let_def split_def)

lemma run_ops_no_release:
  "\<exists>new. trace (snd (run_ops P h ops w)) = trace w @ new \<and> releases new = [] \<and>
     heap (snd (run_ops P h ops w)) = heap w"
proof (induction ops arbitrary: w)
  case Nil
  then show ?case by (simp add: releases_def)
next
  case (Cons x xs)
  let ?w1 = "snd (do_op P h x w)"
  obtain n1 where n1: "trace ?w1 = trace w @ n1" "releases n1 = []"
    using do_op_no_release by blast
  from Cons [of ?w1] obtain n2 where n2: "trace (snd (run_ops P h xs ?w1)) = trace ?w1 @ n2"
    "releases n2 = []" "heap (snd (run_ops P h xs ?w1)) = heap ?w1" by blast
  have "snd (run_ops P h (x # xs) w) = snd (run_ops P h xs ?w1)"
    by (simp add: split_def Let_def)
  with n1 n2 show ?case
    by (intro exI [of _ "n1 @ n2"]) (simp add: releases_append do_op_heap)
qed

lemma get_iochannel_identity_no_release:
  assumes "get_iochannel_identity P ctx cert pkey tr = Some (True, tr')"
  shows "\<exists>new. tr' = tr @ new \<and> releases new = []"
proof -
  from assms obtain identity tr1 where
    lk: "CreateIdentityFromCommonName P cert pkey tr = Some (identity, tr1)"
    by (auto simp: get_iochannel_identity_def split: option.splits)
  from CreateIdentityFromCommonName_events [OF lk]
  obtain kc where kc: "tr1 = tr @ kc" "list_all is_keychain_call kc"
    by (auto simp: grows_by_keychain_calls_def)
  from assms lk have "\<exists>xs. tr' = tr1 @ xs \<and> releases xs = []"
    by (auto simp: get_iochannel_identity_def Let_def releases_def split: if_splits)
  then obtain xs where "tr' = tr @ (kc @ xs)" "releases xs = []" using kc(1) by auto
  with kc(2) show ?thesis
    by (intro exI [of _ "kc @ xs"]) (simp add: releases_append keychain_call_quiet)
qed

lemma get_iochannel_bind_returned:
  assumes "get_iochannel_bind P raw hn v d ctx w = (Returned handle, w1)"
  shows "\<exists>new. trace w1 = trace w @ new \<and> releases new = [] \<and>
           giochan (heap w1 handle) = raw \<and> context' (heap w1 handle) = ctx"
  using assms
  by (auto simp: get_iochannel_bind_def Let_def releases_def split: if_splits)

lemma get_iochannel_returned:
  assumes "irssi_ssl_get_iochannel P raw hn mc pk cf cp v w0 = Some (Returned handle, w1)"
    and "handle \<noteq> NULL"
  shows "\<exists>ctx new. trace w1 = trace w0 @ new \<and> releases new = [] \<and>
           Ssl (E_SSLNewContext False noErr ctx) \<in> set new \<and>
           giochan (heap w1 handle) = raw \<and> context' (heap w1 handle) = ctx"
proof -
  define fd0 where "fd0 = p_g_io_channel_unix_get_fd P (trace w0) raw"
  let ?e1 = "Glib (E_g_io_channel_unix_get_fd raw fd0)"
  obtain st1 ctx where nc: "p_SSLNewContext P (trace w0 @ [?e1]) False = (st1, ctx)"
    by (cases "p_SSLNewContext P (trace w0 @ [?e1]) False")
  let ?e2 = "Ssl (E_SSLNewContext False st1 ctx)"
  define st2 where "st2 = p_SSLSetIOFuncs P (trace w0 @ [?e1, ?e2]) ctx"
  let ?e3 = "Ssl (E_SSLSetIOFuncs ctx st2)"
  let ?pre = "[?e1, ?e2, ?e3, Ssl (E_SSLSetProtocolVersionEnabled ctx kSSLProtocol2 False),
                Ssl (E_SSLSetEnableCertVerify ctx v), Ssl (E_SSLSetAllowsAnyRoot ctx True)]"
  from assms nc have ok: "fd0 \<noteq> 0" "st1 = noErr" "st2 = noErr"
    by (auto simp: irssi_ssl_get_iochannel_def Let_def fd0_def st2_def split: if_splits)
  have "\<exists>mid. releases mid = [] \<and>
          get_iochannel_bind P raw hn v fd0 ctx (w0\<lparr>trace := trace w0 @ ?pre @ mid\<rparr>)
            = (Returned handle, w1)"
  proof (cases mc)
    case None
    with assms nc ok have "get_iochannel_bind P raw hn v fd0 ctx
        (w0\<lparr>trace := trace w0 @ ?pre @ []\<rparr>) = (Returned handle, w1)"
      by (simp add: irssi_ssl_get_iochannel_def Let_def fd0_def st2_def)
    then show ?thesis by (intro exI [of _ "[]"]) (simp add: releases_def)
  next
    case (Some cert)
    with assms nc ok obtain tr5 where
      idt: "get_iochannel_identity P ctx cert pk (trace w0 @ ?pre) = Some (True, tr5)"
      and bind: "get_iochannel_bind P raw hn v fd0 ctx (w0\<lparr>trace := tr5\<rparr>) = (Returned handle, w1)"
      by (auto simp: irssi_ssl_get_iochannel_def Let_def fd0_def st2_def
            split: option.splits if_splits)
    from get_iochannel_identity_no_release [OF idt]
    obtain mid where "tr5 = (trace w0 @ ?pre) @ mid" "releases mid = []" by blast
    with bind show ?thesis by (intro exI [of _ mid]) simp
  qed
  then obtain mid where mid: "releases mid = []"
    "get_iochannel_bind P raw hn v fd0 ctx (w0\<lparr>trace := trace w0 @ ?pre @ mid\<rparr>)
       = (Returned handle, w1)" by blast
  from get_iochannel_bind_returned [OF mid(2)]
  obtain new where new: "trace w1 = (trace w0 @ ?pre @ mid) @ new" "releases new = []"
    "giochan (heap w1 handle) = raw" "context' (heap w1 handle) = ctx" by auto
  from new mid(1) ok show ?thesis
    by (intro exI [of _ ctx] exI [of _ "?pre @ mid @ new"])
       (simp add: releases_append, simp add: releases_def)
qed

text \<open>
  A channel object that construction returns wraps the raw channel it was given and
  holds that raw channel's descriptor, the one \<open>g_io_channel_unix_get_fd\<close> reported.
\<close>

lemma get_iochannel_stores_descriptor:
  assumes "irssi_ssl_get_iochannel P raw hn mc pk cf cp v start = Some (Returned handle, opened)"
    and "handle \<noteq> NULL"
  shows "giochan (heap opened handle) = raw \<and>
         fd (heap opened handle) = p_g_io_channel_unix_get_fd P (trace start) raw"
proof -
  have bind: "giochan (heap u handle) = raw \<and> fd (heap u handle) = d"
    if "get_iochannel_bind P raw hn v d c x = (Returned handle, u)" for d c x u
    using that by (auto simp: get_iochannel_bind_def Let_def split: if_splits)
  from assms obtain c x where
    "get_iochannel_bind P raw hn v (p_g_io_channel_unix_get_fd P (trace start) raw) c x
       = (Returned handle, opened)"
    by (auto simp: irssi_ssl_get_iochannel_def Let_def
          split: if_splits prod.splits option.splits)
  then show ?thesis by (rule bind)
qed

text \<open>
  Claim C8. Take a channel that \<open>irssi_ssl_get_iochannel\<close> returned, any sequence of
  operations on it (handshakes that are in progress, established or failed, reads,
  writes, pass-through calls), and then \<open>irssi_ssl_free\<close>. From construction to destruction
  the releases are exactly two: one \<open>g_io_channel_unref\<close> of the wrapped raw channel and one
  \<open>SSLDisposeContext\<close> of the context that construction created.
\<close>

theorem destroy_releases_each_resource_once:
  assumes "irssi_ssl_get_iochannel P raw hostname' mycert mypkey cafile capath verify' start
             = Some (Returned handle, opened)"
    and "handle \<noteq> NULL"
    and "run_ops P handle ops opened = (rs, used)"
  shows "\<exists>ctx new. trace (irssi_ssl_free P handle used) = trace start @ new \<and>
           Ssl (E_SSLNewContext False noErr ctx) \<in> set new \<and>
           releases new = [Glib (E_g_io_channel_unref raw), Ssl (E_SSLDisposeContext ctx)]"
proof -
  from get_iochannel_returned [OF assms(1,2)]
  obtain ctx n1 where n1: "trace opened = trace start @ n1" "releases n1 = []"
    "Ssl (E_SSLNewContext False noErr ctx) \<in> set n1"
    "giochan (heap opened handle) = raw" "context' (heap opened handle) = ctx" by blast
  from run_ops_no_release [of P handle ops opened] assms(3)
  obtain n2 where n2: "trace used = trace opened @ n2" "releases n2 = []" "heap used = heap opened"
    by auto
  let ?n3 = "[Glib (E_g_io_channel_unref raw), Ssl (E_SSLDisposeContext ctx),
              Glib (E_g_free handle)]"
  have "trace (irssi_ssl_free P handle used) = trace used @ ?n3"
    using n1(4,5) n2(3) by (simp add: irssi_ssl_free_def Let_def)
  with n1 n2 show ?thesis
    by (intro exI [of _ ctx] exI [of _ "n1 @ n2 @ ?n3"])
       (simp add: releases_append, simp add: releases_def)
qed

theorem destroy_releases_each_resource_once_witness:
  "irssi_ssl_get_iochannel example_platform 50 None None None None None False example_world
     = Some (Returned 100,
          snd (the (irssi_ssl_get_iochannel example_platform 50 None None None None None False
                      example_world))) \<and>
   (100 :: ref) \<noteq> NULL \<and>
   releases (trace (irssi_ssl_free example_platform 100
      (snd (run_ops example_platform 100 [Op_handshake, Op_read 4]
         (snd (the (irssi_ssl_get_iochannel example_platform 50 None None None None None False
                      example_world)))))))
     = [Glib (E_g_io_channel_unref 50), Ssl (E_SSLDisposeContext 200)]"
  using destroy_releases_each_resource_once [where P = example_platform and raw = 50
      and hostname' = None and mycert = None and mypkey = None and cafile = None
      and capath = None and verify' = False and start = example_world and handle = 100
      and ops = "[Op_handshake, Op_read 4]"
      and opened = "snd (the (irssi_ssl_get_iochannel example_platform 50 None None None None
                      None False example_world))"
      and rs = "fst (run_ops example_platform 100 [Op_handshake, Op_read 4]
         (snd (the (irssi_ssl_get_iochannel example_platform 50 None None None None None False
                      example_world))))"
      and used = "snd (run_ops example_platform 100 [Op_handshake, Op_read 4]
         (snd (the (irssi_ssl_get_iochannel example_platform 50 None None None None None False
                      example_world))))"]
  by (simp add: irssi_ssl_get_iochannel_def get_iochannel_bind_def irssi_ssl_handshake_def
        handshake_trust_def irssi_ssl_read_def irssi_ssl_free_def Let_def NULL_def
        releases_def example_platform_def example_world_def)

end
